theory Spec2Isabelle
  imports Main "HOL-Library.AList" "HOL-Library.Multiset"
begin

section \<open>FinanceTracker storage layer (server/storage.ts)\<close>

text \<open>
  A shallow embedding of the two implementations of \<open>IStorage\<close>: the in-memory
  \<open>MemStorage\<close> and the relational \<open>PostgresStorage\<close>. Mutation of the store is
  explicit state passing, \<open>new Date()\<close> is a clock reading passed in as \<open>now\<close>, a
  thrown exception is \<open>Inl\<close> of an \<open>error\<close>, and \<open>undefined\<close> is \<open>None\<close>.

  Numbers are modelled as \<open>int\<close>: ids, counters, the milliseconds of
  \<open>Date.getTime()\<close>, and the \<open>limit\<close> argument (integral limits only; fractions, NaN
  and the infinities of the JavaScript number type are outside this model). Money amounts
  are opaque integers.
\<close>

subsection \<open>Errors\<close>

datatype error =
    TypeError             \<comment> \<open>reading \<open>getTime\<close> of \<open>null\<close>\<close>
  | UniqueViolation       \<comment> \<open>the database rejects a duplicate of a \<open>UNIQUE\<close> column\<close>
  | NotNullViolation      \<comment> \<open>the database rejects \<open>NULL\<close> in a \<open>NOT NULL\<close> column\<close>
  | ForeignKeyViolation   \<comment> \<open>the database rejects a \<open>user_id\<close> without a user\<close>
  | NoValuesToSet         \<comment> \<open>an \<open>UPDATE\<close> with an empty \<open>SET\<close> list\<close>

subsection \<open>Arrays\<close>

text \<open>
  \<open>Array.prototype.sort(compare)\<close> is stable, and an exception of \<open>compare\<close>
  leaves it. It is modelled as a stable insertion sort in the error monad: an element goes
  in front of the first element of the sorted rest that it does not compare greater than.
  An array of fewer than two elements is never compared.
\<close>

fun Array_sort_insert :: "('a \<Rightarrow> 'a \<Rightarrow> error + int) \<Rightarrow> 'a \<Rightarrow> 'a list \<Rightarrow> error + 'a list" where
  "Array_sort_insert compare x [] = Inr [x]"
| "Array_sort_insert compare x (y # ys) =
     (case compare x y of
        Inl e \<Rightarrow> Inl e
      | Inr c \<Rightarrow>
          if c \<le> 0 then Inr (x # y # ys)
          else (case Array_sort_insert compare x ys of
                  Inl e \<Rightarrow> Inl e
                | Inr zs \<Rightarrow> Inr (y # zs)))"

fun Array_sort :: "('a \<Rightarrow> 'a \<Rightarrow> error + int) \<Rightarrow> 'a list \<Rightarrow> error + 'a list" where
  "Array_sort compare [] = Inr []"
| "Array_sort compare (x # xs) =
     (case Array_sort compare xs of
        Inl e \<Rightarrow> Inl e
      | Inr ys \<Rightarrow> Array_sort_insert compare x ys)"

text \<open>
  \<open>Array.prototype.slice(start)\<close> with one integral argument: a negative \<open>start\<close>
  counts from the end, and both ends are clamped to the array.
\<close>

definition Array_slice :: "'a list \<Rightarrow> int \<Rightarrow> 'a list" where
  "Array_slice xs start =
     (let len = int (length xs);
          k = (if start < 0 then max (len + start) 0 else min start len)
      in drop (nat k) xs)"

subsection \<open>Map\<close>

text \<open>
  A JavaScript \<open>Map\<close> iterates in insertion order; \<open>set\<close> of a key already present
  keeps its place, and \<open>delete\<close> reports whether the key was there. It is an association
  list in insertion order.
\<close>

type_synonym 'v Map = "(int \<times> 'v) list"

definition Map_get :: "'v Map \<Rightarrow> int \<Rightarrow> 'v option" where
  "Map_get m k = map_of m k"

definition Map_set :: "'v Map \<Rightarrow> int \<Rightarrow> 'v \<Rightarrow> 'v Map" where
  "Map_set m k v = AList.update k v m"

definition Map_delete :: "'v Map \<Rightarrow> int \<Rightarrow> bool \<times> 'v Map" where
  "Map_delete m k = (map_of m k \<noteq> None, AList.delete k m)"

definition Map_values :: "'v Map \<Rightarrow> 'v list" where
  "Map_values m = map snd m"

subsection \<open>Entity model (shared/schema)\<close>

text \<open>
  Modelled from the spec: the module \<open>shared/schema\<close>, which declares the types
  \<open>User\<close>, \<open>FinancialProfile\<close>, \<open>ChatMessage\<close>, \<open>FinancialGoal\<close>, their
  insert shapes and the table schemas, is imported by \<open>storage.ts\<close> and is not among the
  sources. The fields are those of the spec's data model; they are also the fields that
  \<open>PostgresStorage\<close> copies out of its argument in each \<open>create\<close>. An entity is its
  insert shape plus the id and the timestamp that the store assigns. A timestamp is
  \<open>None\<close> for \<open>null\<close>, which the relational sorts provide for.
\<close>

type_synonym date = int

record InsertUser =
  iu_username :: string
  iu_email :: string
  iu_password :: string

record User =
  u_id :: int
  u_username :: string
  u_email :: string
  u_password :: string
  u_createdAt :: "date option"

record InsertFinancialProfile =
  ifp_userId :: int
  ifp_monthlyIncome :: int
  ifp_housingExpense :: int
  ifp_transportExpense :: int
  ifp_foodExpense :: int
  ifp_otherExpenses :: int
  ifp_savingsGoal :: int
  ifp_retirementGoal :: int
  ifp_riskTolerance :: string

record FinancialProfile =
  fp_id :: int
  fp_userId :: int
  fp_monthlyIncome :: int
  fp_housingExpense :: int
  fp_transportExpense :: int
  fp_foodExpense :: int
  fp_otherExpenses :: int
  fp_savingsGoal :: int
  fp_retirementGoal :: int
  fp_riskTolerance :: string
  fp_updatedAt :: "date option"

text \<open>\<open>Partial<InsertFinancialProfile>\<close>: \<open>None\<close> is a key that is absent.\<close>

record PartialFinancialProfile =
  pfp_userId :: "int option"
  pfp_monthlyIncome :: "int option"
  pfp_housingExpense :: "int option"
  pfp_transportExpense :: "int option"
  pfp_foodExpense :: "int option"
  pfp_otherExpenses :: "int option"
  pfp_savingsGoal :: "int option"
  pfp_retirementGoal :: "int option"
  pfp_riskTolerance :: "string option"

record InsertChatMessage =
  im_userId :: int
  im_message :: string
  im_isUserMessage :: int

record ChatMessage =
  m_id :: int
  m_userId :: int
  m_message :: string
  m_isUserMessage :: int
  m_timestamp :: "date option"

record InsertFinancialGoal =
  ig_userId :: int
  ig_title :: string
  ig_targetAmount :: int
  ig_currentAmount :: int
  ig_deadline :: "date option"
  ig_category :: string

record FinancialGoal =
  g_id :: int
  g_userId :: int
  g_title :: string
  g_targetAmount :: int
  g_currentAmount :: int
  g_deadline :: "date option"
  g_category :: string
  g_createdAt :: "date option"

text \<open>
  \<open>Partial<InsertFinancialGoal>\<close>: \<open>None\<close> is a key that is absent; the deadline,
  itself nullable, is \<open>Some None\<close> when the key is present with \<open>null\<close>.
\<close>

record PartialFinancialGoal =
  pg_userId :: "int option"
  pg_title :: "string option"
  pg_targetAmount :: "int option"
  pg_currentAmount :: "int option"
  pg_deadline :: "date option option"
  pg_category :: "string option"

text \<open>The object spread \<open>{ ...existing, ...updateData }\<close>, field by field.\<close>

definition spread :: "'a \<Rightarrow> 'a option \<Rightarrow> 'a" where
  "spread old new = (case new of None \<Rightarrow> old | Some v \<Rightarrow> v)"

definition spread_goal :: "FinancialGoal \<Rightarrow> PartialFinancialGoal \<Rightarrow> FinancialGoal" where
  "spread_goal g p =
     \<lparr> g_id = g_id g,
       g_userId = spread (g_userId g) (pg_userId p),
       g_title = spread (g_title g) (pg_title p),
       g_targetAmount = spread (g_targetAmount g) (pg_targetAmount p),
       g_currentAmount = spread (g_currentAmount g) (pg_currentAmount p),
       g_deadline = spread (g_deadline g) (pg_deadline p),
       g_category = spread (g_category g) (pg_category p),
       g_createdAt = g_createdAt g \<rparr>"

definition spread_profile :: "FinancialProfile \<Rightarrow> PartialFinancialProfile \<Rightarrow> FinancialProfile" where
  "spread_profile f p =
     \<lparr> fp_id = fp_id f,
       fp_userId = spread (fp_userId f) (pfp_userId p),
       fp_monthlyIncome = spread (fp_monthlyIncome f) (pfp_monthlyIncome p),
       fp_housingExpense = spread (fp_housingExpense f) (pfp_housingExpense p),
       fp_transportExpense = spread (fp_transportExpense f) (pfp_transportExpense p),
       fp_foodExpense = spread (fp_foodExpense f) (pfp_foodExpense p),
       fp_otherExpenses = spread (fp_otherExpenses f) (pfp_otherExpenses p),
       fp_savingsGoal = spread (fp_savingsGoal f) (pfp_savingsGoal p),
       fp_retirementGoal = spread (fp_retirementGoal f) (pfp_retirementGoal p),
       fp_riskTolerance = spread (fp_riskTolerance f) (pfp_riskTolerance p),
       fp_updatedAt = fp_updatedAt f \<rparr>"

subsection \<open>MemStorage\<close>

record MemStorage =
  users :: "User Map"
  financialProfiles :: "FinancialProfile Map"
  chatMessages :: "ChatMessage Map"
  financialGoals :: "FinancialGoal Map"
  userIdCounter :: int
  profileIdCounter :: int
  messageIdCounter :: int
  goalIdCounter :: int

definition MemStorage_new :: MemStorage where
  "MemStorage_new =
     \<lparr> users = [], financialProfiles = [], chatMessages = [], financialGoals = [],
       userIdCounter = 1, profileIdCounter = 1, messageIdCounter = 1, goalIdCounter = 1 \<rparr>"

definition Mem_getUser :: "MemStorage \<Rightarrow> int \<Rightarrow> User option" where
  "Mem_getUser s i = Map_get (users s) i"

definition Mem_getUserByUsername :: "MemStorage \<Rightarrow> string \<Rightarrow> User option" where
  "Mem_getUserByUsername s username =
     find (\<lambda>user. u_username user = username) (Map_values (users s))"

definition Mem_getUserByEmail :: "MemStorage \<Rightarrow> string \<Rightarrow> User option" where
  "Mem_getUserByEmail s email =
     find (\<lambda>user. u_email user = email) (Map_values (users s))"

definition Mem_createUser :: "MemStorage \<Rightarrow> InsertUser \<Rightarrow> date \<Rightarrow> User \<times> MemStorage" where
  "Mem_createUser s insertUser now =
     (let i = userIdCounter s;
          user = \<lparr> u_id = i, u_username = iu_username insertUser,
                   u_email = iu_email insertUser, u_password = iu_password insertUser,
                   u_createdAt = Some now \<rparr>
      in (user, s\<lparr> userIdCounter := i + 1, users := Map_set (users s) i user \<rparr>))"

definition Mem_getFinancialProfile :: "MemStorage \<Rightarrow> int \<Rightarrow> FinancialProfile option" where
  "Mem_getFinancialProfile s userId =
     find (\<lambda>profile. fp_userId profile = userId) (Map_values (financialProfiles s))"

definition Mem_createFinancialProfile ::
  "MemStorage \<Rightarrow> InsertFinancialProfile \<Rightarrow> date \<Rightarrow> FinancialProfile \<times> MemStorage" where
  "Mem_createFinancialProfile s insertProfile now =
     (let i = profileIdCounter s;
          profile = \<lparr> fp_id = i, fp_userId = ifp_userId insertProfile,
                      fp_monthlyIncome = ifp_monthlyIncome insertProfile,
                      fp_housingExpense = ifp_housingExpense insertProfile,
                      fp_transportExpense = ifp_transportExpense insertProfile,
                      fp_foodExpense = ifp_foodExpense insertProfile,
                      fp_otherExpenses = ifp_otherExpenses insertProfile,
                      fp_savingsGoal = ifp_savingsGoal insertProfile,
                      fp_retirementGoal = ifp_retirementGoal insertProfile,
                      fp_riskTolerance = ifp_riskTolerance insertProfile,
                      fp_updatedAt = Some now \<rparr>
      in (profile, s\<lparr> profileIdCounter := i + 1,
                       financialProfiles := Map_set (financialProfiles s) i profile \<rparr>))"

definition Mem_updateFinancialProfile ::
  "MemStorage \<Rightarrow> int \<Rightarrow> PartialFinancialProfile \<Rightarrow> date \<Rightarrow> FinancialProfile option \<times> MemStorage" where
  "Mem_updateFinancialProfile s userId updateData now =
     (case Mem_getFinancialProfile s userId of
        None \<Rightarrow> (None, s)
      | Some existingProfile \<Rightarrow>
          let updatedProfile = (spread_profile existingProfile updateData)\<lparr> fp_updatedAt := Some now \<rparr>
          in (Some updatedProfile,
              s\<lparr> financialProfiles :=
                   Map_set (financialProfiles s) (fp_id existingProfile) updatedProfile \<rparr>))"

text \<open>
  The comparators of \<open>MemStorage\<close> call \<open>getTime\<close> on the timestamp without a test,
  so a \<open>null\<close> timestamp is a \<open>TypeError\<close>.
\<close>

definition getTime :: "date option \<Rightarrow> error + int" where
  "getTime d = (case d of None \<Rightarrow> Inl TypeError | Some t \<Rightarrow> Inr t)"

definition Mem_compare :: "date option \<Rightarrow> date option \<Rightarrow> error + int" where
  "Mem_compare a b =
     (case getTime a of
        Inl e \<Rightarrow> Inl e
      | Inr aTime \<Rightarrow> (case getTime b of Inl e \<Rightarrow> Inl e | Inr bTime \<Rightarrow> Inr (aTime - bTime)))"

definition Mem_getChatMessages ::
  "MemStorage \<Rightarrow> int \<Rightarrow> int option \<Rightarrow> error + ChatMessage list" where
  "Mem_getChatMessages s userId limit =
     (case Array_sort (\<lambda>a b. Mem_compare (m_timestamp a) (m_timestamp b))
             (filter (\<lambda>message. m_userId message = userId) (Map_values (chatMessages s))) of
        Inl e \<Rightarrow> Inl e
      | Inr userMessages \<Rightarrow>
          (case limit of
             None \<Rightarrow> Inr userMessages
           | Some l \<Rightarrow> if l \<noteq> 0 then Inr (Array_slice userMessages (- l)) else Inr userMessages))"

definition Mem_createChatMessage ::
  "MemStorage \<Rightarrow> InsertChatMessage \<Rightarrow> date \<Rightarrow> ChatMessage \<times> MemStorage" where
  "Mem_createChatMessage s insertMessage now =
     (let i = messageIdCounter s;
          message = \<lparr> m_id = i, m_userId = im_userId insertMessage,
                      m_message = im_message insertMessage,
                      m_isUserMessage = im_isUserMessage insertMessage,
                      m_timestamp = Some now \<rparr>
      in (message, s\<lparr> messageIdCounter := i + 1,
                       chatMessages := Map_set (chatMessages s) i message \<rparr>))"

definition Mem_getFinancialGoals :: "MemStorage \<Rightarrow> int \<Rightarrow> error + FinancialGoal list" where
  "Mem_getFinancialGoals s userId =
     Array_sort (\<lambda>a b. Mem_compare (g_createdAt a) (g_createdAt b))
       (filter (\<lambda>goal. g_userId goal = userId) (Map_values (financialGoals s)))"

definition Mem_getFinancialGoal :: "MemStorage \<Rightarrow> int \<Rightarrow> FinancialGoal option" where
  "Mem_getFinancialGoal s i = Map_get (financialGoals s) i"

definition Mem_createFinancialGoal ::
  "MemStorage \<Rightarrow> InsertFinancialGoal \<Rightarrow> date \<Rightarrow> FinancialGoal \<times> MemStorage" where
  "Mem_createFinancialGoal s insertGoal now =
     (let i = goalIdCounter s;
          goal = \<lparr> g_id = i, g_userId = ig_userId insertGoal, g_title = ig_title insertGoal,
                   g_targetAmount = ig_targetAmount insertGoal,
                   g_currentAmount = ig_currentAmount insertGoal,
                   g_deadline = ig_deadline insertGoal, g_category = ig_category insertGoal,
                   g_createdAt = Some now \<rparr>
      in (goal, s\<lparr> goalIdCounter := i + 1,
                    financialGoals := Map_set (financialGoals s) i goal \<rparr>))"

definition Mem_updateFinancialGoal ::
  "MemStorage \<Rightarrow> int \<Rightarrow> PartialFinancialGoal \<Rightarrow> FinancialGoal option \<times> MemStorage" where
  "Mem_updateFinancialGoal s i updateData =
     (case Mem_getFinancialGoal s i of
        None \<Rightarrow> (None, s)
      | Some existingGoal \<Rightarrow>
          let updatedGoal = spread_goal existingGoal updateData
          in (Some updatedGoal,
              s\<lparr> financialGoals := Map_set (financialGoals s) i updatedGoal \<rparr>))"

definition Mem_deleteFinancialGoal :: "MemStorage \<Rightarrow> int \<Rightarrow> bool \<times> MemStorage" where
  "Mem_deleteFinancialGoal s i =
     (let (existed, goals) = Map_delete (financialGoals s) i
      in (existed, s\<lparr> financialGoals := goals \<rparr>))"

subsection \<open>The database behind PostgresStorage (server/db.ts)\<close>

text \<open>
  The database engine and the query builder are external. The model keeps of them what
  the \<open>CREATE TABLE\<close> statements of \<open>initializeDatabase\<close> declare and the storage
  operations rely on: a table is the list of its rows in insertion order, and a \<open>SELECT\<close>
  returns the matching rows in that order; an id is the next value of the table's
  \<open>SERIAL\<close> sequence, which a rejected \<open>INSERT\<close> consumes as well; \<open>username\<close>,
  \<open>email\<close> and \<open>password_hash\<close> are \<open>NOT NULL\<close> and have no default, and
  \<open>username\<close> and \<open>email\<close> are \<open>UNIQUE\<close>; every \<open>user_id\<close>
  \<open>REFERENCES users(id)\<close>; the timestamp columns default to \<open>CURRENT_TIMESTAMP\<close>,
  the clock reading \<open>now\<close>. Column widths, decimal precision and failures of the
  connection are not modelled.
\<close>

text \<open>
  Modelled from the spec: the table schema \<open>users\<close> of \<open>shared/schema\<close> is not among
  the sources. Its fields are those of \<open>User\<close>; the field \<open>password\<close> is the column
  \<open>password_hash\<close> of the table, as the comment in \<open>createUser\<close> and the spec have
  it, and a row is read back field by field. The other tables differ from their entities
  in the spelling of the names only, and hold the entities as they are.
\<close>

record users_row =
  id_col :: int
  username_col :: string
  email_col :: string
  password_hash_col :: string
  created_at_col :: "date option"

definition row_to_User :: "users_row \<Rightarrow> User" where
  "row_to_User r =
     \<lparr> u_id = id_col r, u_username = username_col r, u_email = email_col r,
       u_password = password_hash_col r, u_createdAt = created_at_col r \<rparr>"

record Database =
  users_table :: "users_row list"
  financial_profiles_table :: "FinancialProfile list"
  chat_messages_table :: "ChatMessage list"
  financial_goals_table :: "FinancialGoal list"
  users_id_seq :: int
  financial_profiles_id_seq :: int
  chat_messages_id_seq :: int
  financial_goals_id_seq :: int

definition Database_new :: Database where
  "Database_new =
     \<lparr> users_table = [], financial_profiles_table = [], chat_messages_table = [],
       financial_goals_table = [],
       users_id_seq = 1, financial_profiles_id_seq = 1, chat_messages_id_seq = 1,
       financial_goals_id_seq = 1 \<rparr>"

text \<open>\<open>result.length > 0 ? result[0] : undefined\<close>\<close>

definition first_row :: "'a list \<Rightarrow> 'a option" where
  "first_row result = (case result of [] \<Rightarrow> None | r # _ \<Rightarrow> Some r)"

text \<open>
  \<open>db.insert(users).values(...).returning()\<close>. The query builder reads the object given
  to \<open>values\<close> by the field names of the schema: a key that is not a field is ignored,
  and a field without a value is left to the default of its column, which for the three
  \<open>NOT NULL\<close> columns is \<open>NULL\<close> and is rejected. The constraints are checked before
  the unique indexes.
\<close>

record users_values =
  username_value :: "string option"
  email_value :: "string option"
  password_value :: "string option"

definition insert_users ::
  "Database \<Rightarrow> users_values \<Rightarrow> date \<Rightarrow> (error + users_row) \<times> Database" where
  "insert_users db v now =
     (let i = users_id_seq db;
          db1 = db\<lparr> users_id_seq := i + 1 \<rparr>
      in case (username_value v, email_value v, password_value v) of
           (Some username, Some email, Some password) \<Rightarrow>
             let row = \<lparr> id_col = i, username_col = username, email_col = email,
                         password_hash_col = password, created_at_col = Some now \<rparr>
             in if list_ex (\<lambda>r. username_col r = username \<or> email_col r = email)
                     (users_table db)
                then (Inl UniqueViolation, db1)
                else (Inr row, db1\<lparr> users_table := users_table db @ [row] \<rparr>)
         | _ \<Rightarrow> (Inl NotNullViolation, db1))"

definition references_user :: "Database \<Rightarrow> int \<Rightarrow> bool" where
  "references_user db userId = list_ex (\<lambda>r. id_col r = userId) (users_table db)"

subsection \<open>PostgresStorage\<close>

definition Postgres_getUser :: "Database \<Rightarrow> int \<Rightarrow> User option" where
  "Postgres_getUser db i =
     first_row (map row_to_User (filter (\<lambda>r. id_col r = i) (users_table db)))"

definition Postgres_getUserByUsername :: "Database \<Rightarrow> string \<Rightarrow> User option" where
  "Postgres_getUserByUsername db username =
     first_row (map row_to_User (filter (\<lambda>r. username_col r = username) (users_table db)))"

definition Postgres_getUserByEmail :: "Database \<Rightarrow> string \<Rightarrow> User option" where
  "Postgres_getUserByEmail db email =
     first_row (map row_to_User (filter (\<lambda>r. email_col r = email) (users_table db)))"

text \<open>
  \<open>createUser\<close> gives \<open>values\<close> an object with the keys \<open>username\<close>, \<open>email\<close>
  and \<open>password_hash\<close>. The first two are fields of the schema; \<open>password_hash\<close> is
  the name of a column and not of a field, so it is ignored, and the field \<open>password\<close>
  has no value.
\<close>

definition Postgres_createUser ::
  "Database \<Rightarrow> InsertUser \<Rightarrow> date \<Rightarrow> (error + User) \<times> Database" where
  "Postgres_createUser db insertUser now =
     (let result = insert_users db
                     \<lparr> username_value = Some (iu_username insertUser),
                       email_value = Some (iu_email insertUser),
                       password_value = None \<rparr> now
      in (case fst result of Inl e \<Rightarrow> Inl e | Inr row \<Rightarrow> Inr (row_to_User row), snd result))"

definition Postgres_getFinancialProfile :: "Database \<Rightarrow> int \<Rightarrow> FinancialProfile option" where
  "Postgres_getFinancialProfile db userId =
     first_row (filter (\<lambda>r. fp_userId r = userId) (financial_profiles_table db))"

definition Postgres_createFinancialProfile ::
  "Database \<Rightarrow> InsertFinancialProfile \<Rightarrow> date \<Rightarrow> (error + FinancialProfile) \<times> Database" where
  "Postgres_createFinancialProfile db insertProfile now =
     (let i = financial_profiles_id_seq db;
          db1 = db\<lparr> financial_profiles_id_seq := i + 1 \<rparr>;
          row = \<lparr> fp_id = i, fp_userId = ifp_userId insertProfile,
                  fp_monthlyIncome = ifp_monthlyIncome insertProfile,
                  fp_housingExpense = ifp_housingExpense insertProfile,
                  fp_transportExpense = ifp_transportExpense insertProfile,
                  fp_foodExpense = ifp_foodExpense insertProfile,
                  fp_otherExpenses = ifp_otherExpenses insertProfile,
                  fp_savingsGoal = ifp_savingsGoal insertProfile,
                  fp_retirementGoal = ifp_retirementGoal insertProfile,
                  fp_riskTolerance = ifp_riskTolerance insertProfile,
                  fp_updatedAt = Some now \<rparr>
      in if \<not> references_user db (ifp_userId insertProfile)
         then (Inl ForeignKeyViolation, db1)
         else (Inr row, db1\<lparr> financial_profiles_table := financial_profiles_table db @ [row] \<rparr>))"

text \<open>
  The \<open>UPDATE\<close> sets the supplied columns and \<open>updatedAt\<close> on every row of the user,
  where \<open>MemStorage\<close> writes the first profile only.
\<close>

definition Postgres_updateFinancialProfile ::
  "Database \<Rightarrow> int \<Rightarrow> PartialFinancialProfile \<Rightarrow> date
     \<Rightarrow> (error + FinancialProfile option) \<times> Database" where
  "Postgres_updateFinancialProfile db userId updateData now =
     (case Postgres_getFinancialProfile db userId of
        None \<Rightarrow> (Inr None, db)
      | Some profile \<Rightarrow>
          let set_row = (\<lambda>r. (spread_profile r updateData)\<lparr> fp_updatedAt := Some now \<rparr>);
              result = map set_row
                         (filter (\<lambda>r. fp_userId r = userId) (financial_profiles_table db))
          in if list_ex (\<lambda>r. fp_userId (set_row r) \<noteq> fp_userId r
                               \<and> \<not> references_user db (fp_userId (set_row r)))
                  (filter (\<lambda>r. fp_userId r = userId) (financial_profiles_table db))
             then (Inl ForeignKeyViolation, db)
             else (Inr (first_row result),
                   db\<lparr> financial_profiles_table :=
                        map (\<lambda>r. if fp_userId r = userId then set_row r else r)
                          (financial_profiles_table db) \<rparr>))"

text \<open>
  The relational comparators read a \<open>null\<close> timestamp as time 0:
  \<open>a.timestamp ? a.timestamp.getTime() : 0\<close> (a \<open>Date\<close> object is always truthy).
\<close>

definition time_or_0 :: "date option \<Rightarrow> int" where
  "time_or_0 d = (case d of None \<Rightarrow> 0 | Some t \<Rightarrow> t)"

definition Postgres_compare :: "date option \<Rightarrow> date option \<Rightarrow> error + int" where
  "Postgres_compare a b =
     (let aTime = time_or_0 a; bTime = time_or_0 b in Inr (aTime - bTime))"

definition Postgres_getChatMessages ::
  "Database \<Rightarrow> int \<Rightarrow> int option \<Rightarrow> error + ChatMessage list" where
  "Postgres_getChatMessages db userId limit =
     (let result = filter (\<lambda>r. m_userId r = userId) (chat_messages_table db)
      in case Array_sort (\<lambda>a b. Postgres_compare (m_timestamp a) (m_timestamp b)) result of
           Inl e \<Rightarrow> Inl e
         | Inr sortedMessages \<Rightarrow>
             (case limit of
                None \<Rightarrow> Inr sortedMessages
              | Some l \<Rightarrow>
                  if l \<noteq> 0 \<and> l > 0 then Inr (Array_slice sortedMessages (- l))
                  else Inr sortedMessages))"

definition Postgres_createChatMessage ::
  "Database \<Rightarrow> InsertChatMessage \<Rightarrow> date \<Rightarrow> (error + ChatMessage) \<times> Database" where
  "Postgres_createChatMessage db insertMessage now =
     (let i = chat_messages_id_seq db;
          db1 = db\<lparr> chat_messages_id_seq := i + 1 \<rparr>;
          row = \<lparr> m_id = i, m_userId = im_userId insertMessage,
                  m_message = im_message insertMessage,
                  m_isUserMessage = im_isUserMessage insertMessage,
                  m_timestamp = Some now \<rparr>
      in if \<not> references_user db (im_userId insertMessage)
         then (Inl ForeignKeyViolation, db1)
         else (Inr row, db1\<lparr> chat_messages_table := chat_messages_table db @ [row] \<rparr>))"

definition Postgres_getFinancialGoals :: "Database \<Rightarrow> int \<Rightarrow> error + FinancialGoal list" where
  "Postgres_getFinancialGoals db userId =
     (let result = filter (\<lambda>r. g_userId r = userId) (financial_goals_table db)
      in Array_sort (\<lambda>a b. Postgres_compare (g_createdAt a) (g_createdAt b)) result)"

definition Postgres_getFinancialGoal :: "Database \<Rightarrow> int \<Rightarrow> FinancialGoal option" where
  "Postgres_getFinancialGoal db i =
     first_row (filter (\<lambda>r. g_id r = i) (financial_goals_table db))"

definition Postgres_createFinancialGoal ::
  "Database \<Rightarrow> InsertFinancialGoal \<Rightarrow> date \<Rightarrow> (error + FinancialGoal) \<times> Database" where
  "Postgres_createFinancialGoal db insertGoal now =
     (let i = financial_goals_id_seq db;
          db1 = db\<lparr> financial_goals_id_seq := i + 1 \<rparr>;
          row = \<lparr> g_id = i, g_userId = ig_userId insertGoal, g_title = ig_title insertGoal,
                  g_targetAmount = ig_targetAmount insertGoal,
                  g_currentAmount = ig_currentAmount insertGoal,
                  g_deadline = ig_deadline insertGoal, g_category = ig_category insertGoal,
                  g_createdAt = Some now \<rparr>
      in if \<not> references_user db (ig_userId insertGoal)
         then (Inl ForeignKeyViolation, db1)
         else (Inr row, db1\<lparr> financial_goals_table := financial_goals_table db @ [row] \<rparr>))"

text \<open>
  \<open>set(updateData)\<close> with no key at all has nothing to set, and no \<open>UPDATE\<close> is
  built from it: that is an error before any row is looked at. The foreign key is checked
  on the rows whose \<open>user_id\<close> changes.
\<close>

definition no_values :: "PartialFinancialGoal \<Rightarrow> bool" where
  "no_values p \<longleftrightarrow>
     pg_userId p = None \<and> pg_title p = None \<and> pg_targetAmount p = None
     \<and> pg_currentAmount p = None \<and> pg_deadline p = None \<and> pg_category p = None"

definition Postgres_updateFinancialGoal ::
  "Database \<Rightarrow> int \<Rightarrow> PartialFinancialGoal \<Rightarrow> (error + FinancialGoal option) \<times> Database" where
  "Postgres_updateFinancialGoal db i updateData =
     (if no_values updateData then (Inl NoValuesToSet, db)
      else
        let set_row = (\<lambda>r. spread_goal r updateData);
            result = map set_row (filter (\<lambda>r. g_id r = i) (financial_goals_table db))
        in if list_ex (\<lambda>r. g_userId (set_row r) \<noteq> g_userId r
                             \<and> \<not> references_user db (g_userId (set_row r)))
                (filter (\<lambda>r. g_id r = i) (financial_goals_table db))
           then (Inl ForeignKeyViolation, db)
           else (Inr (first_row result),
                 db\<lparr> financial_goals_table :=
                      map (\<lambda>r. if g_id r = i then set_row r else r)
                        (financial_goals_table db) \<rparr>))"

definition Postgres_deleteFinancialGoal :: "Database \<Rightarrow> int \<Rightarrow> bool \<times> Database" where
  "Postgres_deleteFinancialGoal db i =
     (let result = filter (\<lambda>r. g_id r = i) (financial_goals_table db)
      in (length result > 0,
          db\<lparr> financial_goals_table := filter (\<lambda>r. g_id r \<noteq> i) (financial_goals_table db) \<rparr>))"

subsection \<open>IStorage: calls and replies\<close>

text \<open>
  The operations of \<open>IStorage\<close> as data, so that a client of a store is a list of
  calls, each with the clock reading at which it runs.
\<close>

datatype call =
    getUser int
  | getUserByUsername string
  | getUserByEmail string
  | createUser InsertUser
  | getFinancialProfile int
  | createFinancialProfile InsertFinancialProfile
  | updateFinancialProfile int PartialFinancialProfile
  | getChatMessages int "int option"
  | createChatMessage InsertChatMessage
  | getFinancialGoals int
  | getFinancialGoal int
  | createFinancialGoal InsertFinancialGoal
  | updateFinancialGoal int PartialFinancialGoal
  | deleteFinancialGoal int

datatype reply =
    a_User "User option"
  | new_User User
  | a_FinancialProfile "FinancialProfile option"
  | new_FinancialProfile FinancialProfile
  | some_ChatMessages "ChatMessage list"
  | new_ChatMessage ChatMessage
  | some_FinancialGoals "FinancialGoal list"
  | a_FinancialGoal "FinancialGoal option"
  | new_FinancialGoal FinancialGoal
  | a_boolean bool

definition returning :: "('a \<Rightarrow> reply) \<Rightarrow> 'a \<times> 's \<Rightarrow> (error + reply) \<times> 's" where
  "returning f r = (Inr (f (fst r)), snd r)"

definition settled :: "('a \<Rightarrow> reply) \<Rightarrow> 's \<Rightarrow> error + 'a \<Rightarrow> (error + reply) \<times> 's" where
  "settled f s r = (case r of Inl e \<Rightarrow> (Inl e, s) | Inr v \<Rightarrow> (Inr (f v), s))"

definition settling :: "('a \<Rightarrow> reply) \<Rightarrow> (error + 'a) \<times> 's \<Rightarrow> (error + reply) \<times> 's" where
  "settling f r = (case fst r of Inl e \<Rightarrow> (Inl e, snd r) | Inr v \<Rightarrow> (Inr (f v), snd r))"

fun Mem_call :: "MemStorage \<Rightarrow> date \<Rightarrow> call \<Rightarrow> (error + reply) \<times> MemStorage" where
  "Mem_call s now (getUser i) = (Inr (a_User (Mem_getUser s i)), s)"
| "Mem_call s now (getUserByUsername n) = (Inr (a_User (Mem_getUserByUsername s n)), s)"
| "Mem_call s now (getUserByEmail e) = (Inr (a_User (Mem_getUserByEmail s e)), s)"
| "Mem_call s now (createUser d) = returning new_User (Mem_createUser s d now)"
| "Mem_call s now (getFinancialProfile u) =
     (Inr (a_FinancialProfile (Mem_getFinancialProfile s u)), s)"
| "Mem_call s now (createFinancialProfile d) =
     returning new_FinancialProfile (Mem_createFinancialProfile s d now)"
| "Mem_call s now (updateFinancialProfile u d) =
     returning a_FinancialProfile (Mem_updateFinancialProfile s u d now)"
| "Mem_call s now (getChatMessages u l) = settled some_ChatMessages s (Mem_getChatMessages s u l)"
| "Mem_call s now (createChatMessage d) = returning new_ChatMessage (Mem_createChatMessage s d now)"
| "Mem_call s now (getFinancialGoals u) = settled some_FinancialGoals s (Mem_getFinancialGoals s u)"
| "Mem_call s now (getFinancialGoal i) = (Inr (a_FinancialGoal (Mem_getFinancialGoal s i)), s)"
| "Mem_call s now (createFinancialGoal d) =
     returning new_FinancialGoal (Mem_createFinancialGoal s d now)"
| "Mem_call s now (updateFinancialGoal i d) =
     returning a_FinancialGoal (Mem_updateFinancialGoal s i d)"
| "Mem_call s now (deleteFinancialGoal i) = returning a_boolean (Mem_deleteFinancialGoal s i)"

fun Postgres_call :: "Database \<Rightarrow> date \<Rightarrow> call \<Rightarrow> (error + reply) \<times> Database" where
  "Postgres_call db now (getUser i) = (Inr (a_User (Postgres_getUser db i)), db)"
| "Postgres_call db now (getUserByUsername n) =
     (Inr (a_User (Postgres_getUserByUsername db n)), db)"
| "Postgres_call db now (getUserByEmail e) = (Inr (a_User (Postgres_getUserByEmail db e)), db)"
| "Postgres_call db now (createUser d) = settling new_User (Postgres_createUser db d now)"
| "Postgres_call db now (getFinancialProfile u) =
     (Inr (a_FinancialProfile (Postgres_getFinancialProfile db u)), db)"
| "Postgres_call db now (createFinancialProfile d) =
     settling new_FinancialProfile (Postgres_createFinancialProfile db d now)"
| "Postgres_call db now (updateFinancialProfile u d) =
     settling a_FinancialProfile (Postgres_updateFinancialProfile db u d now)"
| "Postgres_call db now (getChatMessages u l) =
     settled some_ChatMessages db (Postgres_getChatMessages db u l)"
| "Postgres_call db now (createChatMessage d) =
     settling new_ChatMessage (Postgres_createChatMessage db d now)"
| "Postgres_call db now (getFinancialGoals u) =
     settled some_FinancialGoals db (Postgres_getFinancialGoals db u)"
| "Postgres_call db now (getFinancialGoal i) =
     (Inr (a_FinancialGoal (Postgres_getFinancialGoal db i)), db)"
| "Postgres_call db now (createFinancialGoal d) =
     settling new_FinancialGoal (Postgres_createFinancialGoal db d now)"
| "Postgres_call db now (updateFinancialGoal i d) =
     settling a_FinancialGoal (Postgres_updateFinancialGoal db i d)"
| "Postgres_call db now (deleteFinancialGoal i) =
     returning a_boolean (Postgres_deleteFinancialGoal db i)"

text \<open>The store after a list of calls; a call that throws leaves what it had done.\<close>

fun Mem_calls :: "MemStorage \<Rightarrow> (date \<times> call) list \<Rightarrow> MemStorage" where
  "Mem_calls s [] = s"
| "Mem_calls s ((now, c) # cs) = Mem_calls (snd (Mem_call s now c)) cs"

fun Postgres_calls :: "Database \<Rightarrow> (date \<times> call) list \<Rightarrow> Database" where
  "Postgres_calls db [] = db"
| "Postgres_calls db ((now, c) # cs) = Postgres_calls (snd (Postgres_call db now c)) cs"

subsection \<open>Invariants of the stores\<close>

text \<open>
  What every \<open>MemStorage\<close> built from \<open>new MemStorage()\<close> by calls satisfies: the
  messages and goals carry a timestamp, and the ids in use are below the counters.
\<close>

definition Mem_inv :: "MemStorage \<Rightarrow> bool" where
  "Mem_inv s \<longleftrightarrow>
     list_all (\<lambda>m. m_timestamp m \<noteq> None) (Map_values (chatMessages s))
     \<and> list_all (\<lambda>g. g_createdAt g \<noteq> None) (Map_values (financialGoals s))
     \<and> list_all (\<lambda>k. k < messageIdCounter s) (map fst (chatMessages s))
     \<and> list_all (\<lambda>k. k < goalIdCounter s) (map fst (financialGoals s))
     \<and> list_all (\<lambda>k. k < userIdCounter s) (map fst (users s))"

text \<open>The ids of the goals in the table are below the sequence of the table.\<close>

definition Postgres_inv :: "Database \<Rightarrow> bool" where
  "Postgres_inv db \<longleftrightarrow>
     list_all (\<lambda>r. g_id r < financial_goals_id_seq db) (financial_goals_table db)
     \<and> list_all (\<lambda>r. id_col r < users_id_seq db) (users_table db)"

subsection \<open>Example stores\<close>

text \<open>
  The scenario of the spec, with three messages whose clock readings are out of order and
  two of them equal.
\<close>

definition alice :: InsertUser where
  "alice = \<lparr> iu_username = ''alice'', iu_email = ''a@x.com'', iu_password = ''h1'' \<rparr>"

definition emergency_fund :: InsertFinancialGoal where
  "emergency_fund =
     \<lparr> ig_userId = 1, ig_title = ''Emergency Fund'', ig_targetAmount = 1000,
       ig_currentAmount = 0, ig_deadline = None, ig_category = ''savings'' \<rparr>"

definition says :: "string \<Rightarrow> InsertChatMessage" where
  "says text = \<lparr> im_userId = 1, im_message = text, im_isUserMessage = 1 \<rparr>"

definition session :: "(date \<times> call) list" where
  "session =
     [(1000, createUser alice),
      (5000, createChatMessage (says ''a'')),
      (3000, createChatMessage (says ''b'')),
      (5000, createChatMessage (says ''c'')),
      (4000, createFinancialGoal emergency_fund)]"

definition Mem_session :: MemStorage where
  "Mem_session = Mem_calls MemStorage_new session"

definition said :: "int \<Rightarrow> string \<Rightarrow> date option \<Rightarrow> ChatMessage" where
  "said i text t =
     \<lparr> m_id = i, m_userId = 1, m_message = text, m_isUserMessage = 1, m_timestamp = t \<rparr>"

definition bob :: InsertUser where
  "bob = \<lparr> iu_username = ''bob'', iu_email = ''b@x.com'', iu_password = ''h2'' \<rparr>"

definition alice_row :: users_row where
  "alice_row =
     \<lparr> id_col = 1, username_col = ''alice'', email_col = ''a@x.com'',
       password_hash_col = ''h1'', created_at_col = Some 1000 \<rparr>"

definition bob_row :: users_row where
  "bob_row =
     \<lparr> id_col = 2, username_col = ''bob'', email_col = ''b@x.com'',
       password_hash_col = ''h2'', created_at_col = Some 2000 \<rparr>"

text \<open>
  A new database whose \<open>users\<close> table holds the given rows already, put there by
  another client of the database. The session on the database that holds \<open>alice\<close>: its
  \<open>createUser\<close> inserts no row, the messages and the goal are created by its calls.
\<close>

definition Postgres_seeded :: "users_row list \<Rightarrow> Database" where
  "Postgres_seeded rows =
     Database_new\<lparr> users_table := rows, users_id_seq := 1 + int (length rows) \<rparr>"

definition Postgres_session :: Database where
  "Postgres_session = Postgres_calls (Postgres_seeded [alice_row]) session"

definition saved :: "int \<Rightarrow> string \<Rightarrow> date option \<Rightarrow> FinancialGoal" where
  "saved i title t =
     \<lparr> g_id = i, g_userId = 1, g_title = title, g_targetAmount = 1000, g_currentAmount = 0,
       g_deadline = None, g_category = ''savings'', g_createdAt = t \<rparr>"

text \<open>
  A database with legacy rows: two messages and two goals without a timestamp, among rows
  dated at the epoch and one second before it.
\<close>

definition legacy_database :: Database where
  "legacy_database =
     \<lparr> users_table = [alice_row],
       financial_profiles_table = [],
       chat_messages_table =
         [said 1 ''epoch'' (Some 0), said 2 ''undated'' None, said 3 ''before'' (Some (- 1000)),
          said 4 ''undated too'' None],
       financial_goals_table =
         [saved 1 ''epoch'' (Some 0), saved 2 ''undated'' None, saved 3 ''before'' (Some (- 1000)),
          saved 4 ''undated too'' None],
       users_id_seq = 2, financial_profiles_id_seq = 1, chat_messages_id_seq = 5,
       financial_goals_id_seq = 5 \<rparr>"

text \<open>The session with a second user: created after it, or in the table before it.\<close>

definition Mem_two_users :: MemStorage where
  "Mem_two_users = Mem_calls Mem_session [(2000, createUser bob)]"

definition Postgres_two_users :: Database where
  "Postgres_two_users = Postgres_calls (Postgres_seeded [alice_row, bob_row]) session"

subsection \<open>The partial merge, in the words of the spec\<close>

text \<open>
  A field that is present in the partial data is overwritten with the supplied value;
  every other field, the id and the creation time among them, keeps its prior value.
\<close>

definition merged_field :: "'a \<Rightarrow> 'a option \<Rightarrow> 'a \<Rightarrow> bool" where
  "merged_field prior supplied stored \<longleftrightarrow>
     (case supplied of None \<Rightarrow> stored = prior | Some v \<Rightarrow> stored = v)"

definition partial_merge :: "FinancialGoal \<Rightarrow> PartialFinancialGoal \<Rightarrow> FinancialGoal \<Rightarrow> bool" where
  "partial_merge g p g' \<longleftrightarrow>
     g_id g' = g_id g
     \<and> g_createdAt g' = g_createdAt g
     \<and> merged_field (g_userId g) (pg_userId p) (g_userId g')
     \<and> merged_field (g_title g) (pg_title p) (g_title g')
     \<and> merged_field (g_targetAmount g) (pg_targetAmount p) (g_targetAmount g')
     \<and> merged_field (g_currentAmount g) (pg_currentAmount p) (g_currentAmount g')
     \<and> merged_field (g_deadline g) (pg_deadline p) (g_deadline g')
     \<and> merged_field (g_category g) (pg_category p) (g_category g')"

definition nothing :: PartialFinancialGoal where
  "nothing =
     \<lparr> pg_userId = None, pg_title = None, pg_targetAmount = None, pg_currentAmount = None,
       pg_deadline = None, pg_category = None \<rparr>"

definition only_title :: "string \<Rightarrow> PartialFinancialGoal" where
  "only_title x = nothing\<lparr> pg_title := Some x \<rparr>"

definition only_userId :: "int \<Rightarrow> PartialFinancialGoal" where
  "only_userId u = nothing\<lparr> pg_userId := Some u \<rparr>"

subsection \<open>Absence of a goal, and users never created\<close>

text \<open>A goal id that is not in the store and that no later \<open>create\<close> will assign.\<close>

definition Mem_gone :: "int \<Rightarrow> MemStorage \<Rightarrow> bool" where
  "Mem_gone i s \<longleftrightarrow> Mem_getFinancialGoal s i = None \<and> i < goalIdCounter s"

definition Postgres_gone :: "int \<Rightarrow> Database \<Rightarrow> bool" where
  "Postgres_gone i db \<longleftrightarrow>
     Postgres_getFinancialGoal db i = None \<and> i < financial_goals_id_seq db"

text \<open>No \<open>createUser\<close> among the calls has data of which \<open>P\<close> holds.\<close>

definition never_created :: "(InsertUser \<Rightarrow> bool) \<Rightarrow> (date \<times> call) list \<Rightarrow> bool" where
  "never_created P cs \<longleftrightarrow>
     list_all (\<lambda>tc. case snd tc of createUser d \<Rightarrow> \<not> P d | _ \<Rightarrow> True) cs"

text \<open>Calls after a deletion of goal 1: a new goal, the deletion again, an update.\<close>

definition afterwards :: "(date \<times> call) list" where
  "afterwards =
     [(5000, createFinancialGoal emergency_fund),
      (6000, deleteFinancialGoal 1),
      (7000, updateFinancialGoal 1 (only_title ''again''))]"

definition no_change :: PartialFinancialProfile where
  "no_change =
     \<lparr> pfp_userId = None, pfp_monthlyIncome = None, pfp_housingExpense = None,
       pfp_transportExpense = None, pfp_foodExpense = None, pfp_otherExpenses = None,
       pfp_savingsGoal = None, pfp_retirementGoal = None, pfp_riskTolerance = None \<rparr>"

section \<open>Properties\<close>

subsection \<open>Sorting with a comparator that is a difference of keys\<close>

lemma Array_sort_insert_key:
  "\<forall>y\<in>set ys. compare x y = Inr (k x - k y) \<Longrightarrow>
   Array_sort_insert compare x ys = Inr (insort_key k x ys)"
  by (induction ys) auto

lemma Array_sort_key:
  "\<forall>x\<in>set xs. \<forall>y\<in>set xs. compare x y = Inr (k x - k y) \<Longrightarrow>
   Array_sort compare xs = Inr (sort_key k xs)"
proof (induction xs)
  case Nil
  then show ?case by simp
next
  case (Cons x xs)
  have rest: "Array_sort compare xs = Inr (sort_key k xs)"
    using Cons by simp
  have "\<forall>y\<in>set (sort_key k xs). compare x y = Inr (k x - k y)"
    using Cons.prems by simp
  then have "Array_sort_insert compare x (sort_key k xs) = Inr (insort_key k x (sort_key k xs))"
    by (rule Array_sort_insert_key)
  with rest show ?case by (simp add: sort_key_def)
qed

lemma Postgres_compare_key:
  "Postgres_compare a b = Inr (time_or_0 a - time_or_0 b)"
  by (simp add: Postgres_compare_def)

lemma Mem_compare_key:
  "a \<noteq> None \<Longrightarrow> b \<noteq> None \<Longrightarrow> Mem_compare a b = Inr (time_or_0 a - time_or_0 b)"
  by (auto simp: Mem_compare_def getTime_def time_or_0_def)

lemma Postgres_sort_messages:
  "Array_sort (\<lambda>a b. Postgres_compare (m_timestamp a) (m_timestamp b)) xs
     = Inr (sort_key (\<lambda>m. time_or_0 (m_timestamp m)) xs)"
  by (rule Array_sort_key) (simp add: Postgres_compare_key)

lemma Postgres_sort_goals:
  "Array_sort (\<lambda>a b. Postgres_compare (g_createdAt a) (g_createdAt b)) xs
     = Inr (sort_key (\<lambda>g. time_or_0 (g_createdAt g)) xs)"
  by (rule Array_sort_key) (simp add: Postgres_compare_key)

lemma Mem_sort_messages:
  "\<forall>m\<in>set xs. m_timestamp m \<noteq> None \<Longrightarrow>
   Array_sort (\<lambda>a b. Mem_compare (m_timestamp a) (m_timestamp b)) xs
     = Inr (sort_key (\<lambda>m. time_or_0 (m_timestamp m)) xs)"
  by (rule Array_sort_key) (simp add: Mem_compare_key)

lemma Mem_sort_goals:
  "\<forall>g\<in>set xs. g_createdAt g \<noteq> None \<Longrightarrow>
   Array_sort (\<lambda>a b. Mem_compare (g_createdAt a) (g_createdAt b)) xs
     = Inr (sort_key (\<lambda>g. time_or_0 (g_createdAt g)) xs)"
  by (rule Array_sort_key) (simp add: Mem_compare_key)

lemma Array_slice_last:
  "0 < n \<Longrightarrow> Array_slice xs (- n) = drop (length xs - nat n) xs"
  by (auto simp: Array_slice_def Let_def max_def nat_diff_distrib'
      intro: arg_cong[where f="\<lambda>k. drop k xs"])

lemma Mem_getChatMessages_all:
  "Mem_inv s \<Longrightarrow>
   Mem_getChatMessages s u None =
     Inr (sort_key (\<lambda>m. time_or_0 (m_timestamp m))
            (filter (\<lambda>m. m_userId m = u) (Map_values (chatMessages s))))"
  by (simp add: Mem_getChatMessages_def Mem_inv_def Mem_sort_messages list_all_iff)

lemma Postgres_getChatMessages_all:
  "Postgres_getChatMessages db u None =
     Inr (sort_key (\<lambda>m. time_or_0 (m_timestamp m))
            (filter (\<lambda>m. m_userId m = u) (chat_messages_table db)))"
  by (simp add: Postgres_getChatMessages_def Postgres_sort_messages)

subsection \<open>The Map operations\<close>

lemma Map_set_fresh: "k \<notin> fst ` set m \<Longrightarrow> Map_set m k v = m @ [(k, v)]"
  unfolding Map_set_def by (induction m) auto

lemma Map_get_set: "Map_get (Map_set m k v) j = (if j = k then Some v else Map_get m j)"
  by (simp add: Map_get_def Map_set_def update_conv')

lemma Map_get_keys: "Map_get m k = Some v \<Longrightarrow> k \<in> fst ` set m"
  unfolding Map_get_def by (metis weak_map_of_SomeI fst_conv image_eqI map_of_SomeD)

lemma Map_get_values: "Map_get m k = Some v \<Longrightarrow> v \<in> set (Map_values m)"
  unfolding Map_get_def Map_values_def by (metis map_of_SomeD image_eqI snd_conv set_map)

lemma Map_get_None: "Map_get m k = None \<longleftrightarrow> k \<notin> fst ` set m"
  by (simp add: Map_get_def map_of_eq_None_iff)

lemma Map_delete_fst: "fst (Map_delete m k) \<longleftrightarrow> Map_get m k \<noteq> None"
  by (simp add: Map_delete_def Map_get_def)

lemma Map_get_delete: "Map_get (snd (Map_delete m k)) j = (if j = k then None else Map_get m j)"
  by (simp add: Map_delete_def Map_get_def delete_conv')

lemma Map_delete_absent: "Map_get m k = None \<Longrightarrow> Map_delete m k = (False, m)"
  by (simp add: Map_delete_def Map_get_def map_of_eq_None_iff)

lemma all_values_Map_set:
  "list_all P (Map_values m) \<Longrightarrow> P v \<Longrightarrow> list_all P (Map_values (Map_set m k v))"
  unfolding Map_set_def Map_values_def by (induction m) auto

lemma all_keys_Map_set:
  "list_all Q (map fst (Map_set m k v)) \<longleftrightarrow> Q k \<and> list_all Q (map fst m)"
  unfolding Map_set_def by (induction m) auto

lemma all_values_Map_delete:
  "list_all P (Map_values m) \<Longrightarrow> list_all P (Map_values (snd (Map_delete m k)))"
  unfolding Map_delete_def Map_values_def by (induction m) auto

lemma all_keys_Map_delete:
  "list_all Q (map fst m) \<Longrightarrow> list_all Q (map fst (snd (Map_delete m k)))"
  unfolding Map_delete_def by (induction m) auto

lemma all_keys_below_le:
  "list_all (\<lambda>k. k < c) ks \<Longrightarrow> list_all (\<lambda>k. k \<le> c) (ks :: int list)"
  by (induction ks) auto

subsection \<open>createUser in the two stores\<close>

lemma Postgres_createUser_throws:
  "Postgres_createUser db d now = (Inl NotNullViolation, db\<lparr> users_id_seq := users_id_seq db + 1 \<rparr>)"
  by (simp add: Postgres_createUser_def insert_users_def)

lemma find_append_Some: "find P xs = Some x \<Longrightarrow> find P (xs @ ys) = Some x"
  by (induction xs) (auto split: if_splits)

subsection \<open>The invariant of MemStorage holds after every call\<close>

lemma Mem_inv_new: "Mem_inv MemStorage_new"
  by (simp add: Mem_inv_def MemStorage_new_def Map_values_def)

lemma Mem_inv_createUser: "Mem_inv s \<Longrightarrow> Mem_inv (snd (Mem_createUser s d now))"
  by (simp add: Mem_inv_def Mem_createUser_def Let_def all_keys_Map_set all_keys_below_le)

lemma Mem_inv_createFinancialProfile:
  "Mem_inv s \<Longrightarrow> Mem_inv (snd (Mem_createFinancialProfile s d now))"
  by (simp add: Mem_inv_def Mem_createFinancialProfile_def Let_def)

lemma Mem_inv_updateFinancialProfile:
  "Mem_inv s \<Longrightarrow> Mem_inv (snd (Mem_updateFinancialProfile s u d now))"
  by (simp add: Mem_inv_def Mem_updateFinancialProfile_def Let_def split: option.splits)

lemma Mem_inv_createChatMessage:
  "Mem_inv s \<Longrightarrow> Mem_inv (snd (Mem_createChatMessage s d now))"
  by (simp add: Mem_inv_def Mem_createChatMessage_def Let_def all_keys_Map_set
      all_keys_below_le all_values_Map_set)

lemma Mem_inv_createFinancialGoal:
  "Mem_inv s \<Longrightarrow> Mem_inv (snd (Mem_createFinancialGoal s d now))"
  by (simp add: Mem_inv_def Mem_createFinancialGoal_def Let_def all_keys_Map_set
      all_keys_below_le all_values_Map_set)

lemma Mem_inv_updateFinancialGoal:
  assumes "Mem_inv s"
  shows "Mem_inv (snd (Mem_updateFinancialGoal s i p))"
proof (cases "Mem_getFinancialGoal s i")
  case None
  then show ?thesis using assms by (simp add: Mem_updateFinancialGoal_def)
next
  case (Some g)
  then have key: "i \<in> fst ` set (financialGoals s)"
    and val: "g \<in> set (Map_values (financialGoals s))"
    by (auto simp: Mem_getFinancialGoal_def dest: Map_get_keys Map_get_values)
  have created: "g_createdAt (spread_goal g p) \<noteq> None"
    using val assms by (simp add: Mem_inv_def spread_goal_def list_all_iff)
  have below: "i < goalIdCounter s"
    using key assms by (auto simp: Mem_inv_def list_all_iff)
  show ?thesis
    using assms Some created below
    by (simp add: Mem_inv_def Mem_updateFinancialGoal_def Let_def all_keys_Map_set
        all_values_Map_set)
qed

lemma Mem_inv_deleteFinancialGoal:
  "Mem_inv s \<Longrightarrow> Mem_inv (snd (Mem_deleteFinancialGoal s i))"
  by (simp add: Mem_inv_def Mem_deleteFinancialGoal_def Let_def split_beta
      all_keys_Map_delete all_values_Map_delete)

lemma Mem_inv_call:
  assumes "Mem_inv s"
  shows "Mem_inv (snd (Mem_call s now c))"
proof (cases c)
  case (getChatMessages u l)
  then show ?thesis using assms by (simp add: settled_def split: sum.splits)
next
  case (getFinancialGoals u)
  then show ?thesis using assms by (simp add: settled_def split: sum.splits)
qed (simp_all add: assms returning_def Mem_inv_createUser Mem_inv_createFinancialProfile
        Mem_inv_updateFinancialProfile Mem_inv_createChatMessage Mem_inv_createFinancialGoal
        Mem_inv_updateFinancialGoal Mem_inv_deleteFinancialGoal)

lemma Mem_inv_calls: "Mem_inv s \<Longrightarrow> Mem_inv (Mem_calls s cs)"
  by (induction cs arbitrary: s) (auto simp: Mem_inv_call)

lemma Mem_inv_session: "Mem_inv Mem_session"
  unfolding Mem_session_def by (rule Mem_inv_calls) (rule Mem_inv_new)

lemma Mem_session_messages:
  "Mem_getChatMessages Mem_session 1 None =
     Inr [said 2 ''b'' (Some 3000), said 1 ''a'' (Some 5000), said 3 ''c'' (Some 5000)]"
  by code_simp

lemma Postgres_session_messages:
  "Postgres_getChatMessages Postgres_session 1 None =
     Inr [said 2 ''b'' (Some 3000), said 1 ''a'' (Some 5000), said 3 ''c'' (Some 5000)]"
  by code_simp

section \<open>The claims\<close>

text \<open>
  C9. For every user and both stores, \<open>getChatMessages(userId, 0)\<close> returns what
  \<open>getChatMessages(userId)\<close> returns without a limit: the guards \<open>if (limit)\<close> and
  \<open>if (limit && limit > 0)\<close> take a zero limit for an absent one. The equation holds in
  every store, also where the sort of \<open>MemStorage\<close> throws.
\<close>

theorem zero_limit_is_no_limit:
  "Mem_getChatMessages s u (Some 0) = Mem_getChatMessages s u None
   \<and> Postgres_getChatMessages db u (Some 0) = Postgres_getChatMessages db u None"
  by (simp add: Mem_getChatMessages_def Postgres_getChatMessages_def split: sum.splits)

theorem zero_limit_is_no_limit_witness:
  "Mem_getChatMessages Mem_session 1 (Some 0) =
     Inr [said 2 ''b'' (Some 3000), said 1 ''a'' (Some 5000), said 3 ''c'' (Some 5000)]
   \<and> Postgres_getChatMessages Postgres_session 1 (Some 0) =
     Inr [said 2 ''b'' (Some 3000), said 1 ''a'' (Some 5000), said 3 ''c'' (Some 5000)]"
  using zero_limit_is_no_limit [of Mem_session 1 Postgres_session]
  by (simp add: Mem_session_messages Postgres_session_messages)

lemma last_elements:
  "\<exists>front. xs = front @ drop (length xs - n) xs" 
  by (metis append_take_drop_id)

text \<open>
  C3. For every user and every positive limit \<open>n\<close>, \<open>getChatMessages(userId, n)\<close>
  returns the last \<open>n\<close> elements of what \<open>getChatMessages(userId)\<close> returns, in the
  same order: the full list is some front followed by the limited list, and the limited
  list has \<open>n\<close> elements, or all of them when there are fewer than \<open>n\<close>. In
  \<open>MemStorage\<close> this is for the stores that satisfy the invariant, where the sort
  returns.
\<close>

theorem limit_law:
  assumes "0 < n"
  shows "(Mem_inv s \<longrightarrow>
           (\<exists>full limited front.
              Mem_getChatMessages s u None = Inr full
              \<and> Mem_getChatMessages s u (Some n) = Inr limited
              \<and> full = front @ limited
              \<and> int (length limited) = min n (int (length full))))
       \<and> (\<exists>full limited front.
              Postgres_getChatMessages db u None = Inr full
              \<and> Postgres_getChatMessages db u (Some n) = Inr limited
              \<and> full = front @ limited
              \<and> int (length limited) = min n (int (length full)))"
proof -
  have slice: "\<exists>front. full = front @ Array_slice full (- n)
      \<and> int (length (Array_slice full (- n))) = min n (int (length full))" for full :: "ChatMessage list"
    using assms last_elements[of full "nat n"] by (auto simp: Array_slice_last)
  have mem: "Mem_getChatMessages s u (Some n) = Inr (Array_slice full (- n))"
    if "Mem_getChatMessages s u None = Inr full" for full
    using that assms by (auto simp: Mem_getChatMessages_def split: sum.splits)
  have pg: "Postgres_getChatMessages db u (Some n) = Inr (Array_slice full (- n))"
    if "Postgres_getChatMessages db u None = Inr full" for full
    using that assms by (auto simp: Postgres_getChatMessages_def split: sum.splits)
  show ?thesis
    using slice mem pg Mem_getChatMessages_all[of s u] Postgres_getChatMessages_all[of db u]
    by metis
qed








lemma Mem_session_last_two:
  "Mem_getChatMessages Mem_session 1 (Some 2) =
     Inr [said 1 ''a'' (Some 5000), said 3 ''c'' (Some 5000)]"
  by code_simp

lemma Postgres_session_last_two:
  "Postgres_getChatMessages Postgres_session 1 (Some 2) =
     Inr [said 1 ''a'' (Some 5000), said 3 ''c'' (Some 5000)]"
  by code_simp

theorem limit_law_witness:
  "0 < (2::int) \<and> Mem_inv Mem_session
   \<and> (\<exists>full limited front.
        Mem_getChatMessages Mem_session 1 None = Inr full
        \<and> Mem_getChatMessages Mem_session 1 (Some 2) = Inr limited
        \<and> limited = [said 1 ''a'' (Some 5000), said 3 ''c'' (Some 5000)]
        \<and> full = front @ limited
        \<and> int (length limited) = min 2 (int (length full)))
   \<and> (\<exists>full limited front.
        Postgres_getChatMessages Postgres_session 1 None = Inr full
        \<and> Postgres_getChatMessages Postgres_session 1 (Some 2) = Inr limited
        \<and> limited = [said 1 ''a'' (Some 5000), said 3 ''c'' (Some 5000)]
        \<and> full = front @ limited
        \<and> int (length limited) = min 2 (int (length full)))"
  using limit_law [of 2 Mem_session 1 Postgres_session] Mem_inv_session
  by (simp add: Mem_session_last_two Postgres_session_last_two)


text \<open>
  C1. In \<open>getChatMessages\<close> and \<open>getFinancialGoals\<close> a record without a timestamp
  is to sort before every record with one. The relational comparators substitute time 0
  for \<open>null\<close>, so in the legacy database the undated records come after the record
  dated before the epoch, and, by their place in the table, after the record dated at the
  epoch.
\<close>

theorem undated_rows_sort_as_epoch:
  "Postgres_getChatMessages legacy_database 1 None =
     Inr [said 3 ''before'' (Some (- 1000)), said 1 ''epoch'' (Some 0), said 2 ''undated'' None,
          said 4 ''undated too'' None]
   \<and> Postgres_getFinancialGoals legacy_database 1 =
     Inr [saved 3 ''before'' (Some (- 1000)), saved 1 ''epoch'' (Some 0),
          saved 2 ''undated'' None, saved 4 ''undated too'' None]"
  by code_simp

lemma first_row_map: "first_row (map f xs) = map_option f (first_row xs)"
  by (cases xs) (simp_all add: first_row_def)

lemma first_row_filter_None: "first_row (filter P xs) = None \<longleftrightarrow> \<not> list_ex P xs"
  by (induction xs) (auto simp: first_row_def split: list.splits)

lemma username_taken:
  "Postgres_getUserByUsername db n = None \<longleftrightarrow> \<not> list_ex (\<lambda>r. username_col r = n) (users_table db)"
  by (simp add: Postgres_getUserByUsername_def first_row_map first_row_filter_None)

lemma email_taken:
  "Postgres_getUserByEmail db e = None \<longleftrightarrow> \<not> list_ex (\<lambda>r. email_col r = e) (users_table db)"
  by (simp add: Postgres_getUserByEmail_def first_row_map first_row_filter_None)

text \<open>
  C2, as stated, fails in both stores. In \<open>MemStorage\<close> the username and the email of
  \<open>alice\<close> are taken, and \<open>createUser\<close> returns a second user with them. In
  \<open>PostgresStorage\<close> they are taken as well, and \<open>createUser\<close> fails, but with the
  rejection of a \<open>NULL\<close> credential, which is no conflict.
\<close>

theorem createUser_conflict_counterexample:
  "Mem_getUserByUsername Mem_session ''alice'' =
     Some \<lparr> u_id = 1, u_username = ''alice'', u_email = ''a@x.com'', u_password = ''h1'',
            u_createdAt = Some 1000 \<rparr>
   \<and> fst (Mem_call Mem_session 2000 (createUser alice)) =
     Inr (new_User \<lparr> u_id = 2, u_username = ''alice'', u_email = ''a@x.com'',
                     u_password = ''h1'', u_createdAt = Some 2000 \<rparr>)
   \<and> Postgres_getUserByUsername Postgres_session ''alice'' =
     Some \<lparr> u_id = 1, u_username = ''alice'', u_email = ''a@x.com'', u_password = ''h1'',
            u_createdAt = Some 1000 \<rparr>
   \<and> fst (Postgres_call Postgres_session 2000 (createUser alice)) = Inl NotNullViolation"
  by code_simp

lemma Mem_createUser_appends:
  assumes "Mem_inv s"
  shows "Map_values (users (snd (Mem_createUser s d now)))
           = Map_values (users s) @ [fst (Mem_createUser s d now)]"
proof -
  have "userIdCounter s \<notin> fst ` set (users s)"
    using assms by (auto simp: Mem_inv_def list_all_iff)
  then show ?thesis
    by (simp add: Mem_createUser_def Let_def Map_set_fresh Map_values_def)
qed

text \<open>
  C2, amended. In \<open>MemStorage\<close>, \<open>createUser\<close> makes no uniqueness check and never
  fails: whether or not the username or the email is taken by an existing user, it
  returns, and stores under its id, a new user with the next id and the creation time,
  and a user that held the username or the email before is still the one that the lookup
  by it returns.
\<close>

theorem createUser_conflict:
  "fst (Mem_call s now (createUser d)) =
     Inr (new_User \<lparr> u_id = userIdCounter s, u_username = iu_username d,
                     u_email = iu_email d, u_password = iu_password d,
                     u_createdAt = Some now \<rparr>)
   \<and> Mem_getUser (snd (Mem_call s now (createUser d))) (userIdCounter s) =
     Some \<lparr> u_id = userIdCounter s, u_username = iu_username d, u_email = iu_email d,
            u_password = iu_password d, u_createdAt = Some now \<rparr>
   \<and> (Mem_inv s \<longrightarrow>
        (\<forall>u. Mem_getUserByUsername s (iu_username d) = Some u \<longrightarrow>
           Mem_getUserByUsername (snd (Mem_call s now (createUser d))) (iu_username d) = Some u)
        \<and> (\<forall>u. Mem_getUserByEmail s (iu_email d) = Some u \<longrightarrow>
           Mem_getUserByEmail (snd (Mem_call s now (createUser d))) (iu_email d) = Some u))"
proof (intro conjI impI allI)
  show "fst (Mem_call s now (createUser d)) =
     Inr (new_User \<lparr> u_id = userIdCounter s, u_username = iu_username d,
                     u_email = iu_email d, u_password = iu_password d,
                     u_createdAt = Some now \<rparr>)"
    by (simp add: returning_def Mem_createUser_def Let_def)
  show "Mem_getUser (snd (Mem_call s now (createUser d))) (userIdCounter s) =
     Some \<lparr> u_id = userIdCounter s, u_username = iu_username d, u_email = iu_email d,
            u_password = iu_password d, u_createdAt = Some now \<rparr>"
    by (simp add: returning_def Mem_createUser_def Let_def Mem_getUser_def Map_get_set)
next
  fix u
  assume "Mem_inv s" and "Mem_getUserByUsername s (iu_username d) = Some u"
  then show "Mem_getUserByUsername (snd (Mem_call s now (createUser d))) (iu_username d) = Some u"
    by (simp add: returning_def Mem_getUserByUsername_def Mem_createUser_appends
        find_append_Some)
next
  fix u
  assume "Mem_inv s" and "Mem_getUserByEmail s (iu_email d) = Some u"
  then show "Mem_getUserByEmail (snd (Mem_call s now (createUser d))) (iu_email d) = Some u"
    by (simp add: returning_def Mem_getUserByEmail_def Mem_createUser_appends
        find_append_Some)
qed

theorem createUser_conflict_witness:
  "Mem_inv Mem_session
   \<and> Mem_getUserByUsername Mem_session (iu_username alice) =
       Some \<lparr> u_id = 1, u_username = ''alice'', u_email = ''a@x.com'', u_password = ''h1'',
              u_createdAt = Some 1000 \<rparr>
   \<and> fst (Mem_call Mem_session 2000 (createUser alice)) =
       Inr (new_User \<lparr> u_id = 2, u_username = ''alice'', u_email = ''a@x.com'',
                       u_password = ''h1'', u_createdAt = Some 2000 \<rparr>)
   \<and> Mem_getUser (snd (Mem_call Mem_session 2000 (createUser alice))) 2 =
       Some \<lparr> u_id = 2, u_username = ''alice'', u_email = ''a@x.com'', u_password = ''h1'',
              u_createdAt = Some 2000 \<rparr>
   \<and> Mem_getUserByUsername (snd (Mem_call Mem_session 2000 (createUser alice)))
        (iu_username alice) =
       Some \<lparr> u_id = 1, u_username = ''alice'', u_email = ''a@x.com'', u_password = ''h1'',
              u_createdAt = Some 1000 \<rparr>"
proof -
  have held: "Mem_getUserByUsername Mem_session (iu_username alice) =
       Some \<lparr> u_id = 1, u_username = ''alice'', u_email = ''a@x.com'', u_password = ''h1'',
              u_createdAt = Some 1000 \<rparr>"
    by code_simp
  have counter: "userIdCounter Mem_session = 2"
    by code_simp
  show ?thesis
    using createUser_conflict [of Mem_session 2000 alice] Mem_inv_session held
    by (simp add: counter alice_def)
qed

lemma first_row_Some: "first_row xs = Some x \<longleftrightarrow> (\<exists>ys. xs = x # ys)"
  by (cases xs) (auto simp: first_row_def)

lemma Mem_createUser_getUser:
  "\<exists>user s'. Mem_createUser s d now = (user, s')
     \<and> Mem_getUser s' (u_id user) = Some user
     \<and> user = \<lparr> u_id = userIdCounter s, u_username = iu_username d, u_email = iu_email d,
                 u_password = iu_password d, u_createdAt = Some now \<rparr>"
  by (simp add: Mem_createUser_def Let_def Mem_getUser_def Map_get_set)

text \<open>
  C5. After \<open>createUser(data)\<close> returns a user, \<open>getUser\<close> of its id is to return the
  input data plus the assigned id and the creation time, the credential going through
  the column \<open>password_hash\<close>. \<open>MemStorage\<close> does that. \<open>PostgresStorage.createUser\<close>
  passes the credential under the key \<open>password_hash\<close>, which is not read, so the column
  gets no value: on the database that holds \<open>alice\<close>, the creation of \<open>bob\<close>, whose
  username and email are free, is rejected, no row is added, and \<open>getUser\<close> of the id
  the row would have had finds nothing.
\<close>

theorem createUser_loses_password:
  "Postgres_getUserByUsername Postgres_session ''bob'' = None
   \<and> Postgres_getUserByEmail Postgres_session ''b@x.com'' = None
   \<and> fst (Postgres_createUser Postgres_session bob 2000) = Inl NotNullViolation
   \<and> users_table (snd (Postgres_createUser Postgres_session bob 2000)) = [alice_row]
   \<and> Postgres_getUser (snd (Postgres_createUser Postgres_session bob 2000))
        (users_id_seq Postgres_session) = None"
  by code_simp

lemma Postgres_inv_session: "Postgres_inv Postgres_session"
  by code_simp


lemma partial_merge_spread: "partial_merge g p (spread_goal g p)"
  by (simp add: partial_merge_def merged_field_def spread_goal_def spread_def
      split: option.splits)

lemma spread_only_title: "spread_goal g (only_title x) = g\<lparr> g_title := x \<rparr>"
  by (simp add: spread_goal_def spread_def only_title_def nothing_def)

lemma Mem_update_existing:
  "Mem_getFinancialGoal s i = Some g \<Longrightarrow>
   Mem_updateFinancialGoal s i p =
     (Some (spread_goal g p),
      s\<lparr> financialGoals := Map_set (financialGoals s) i (spread_goal g p) \<rparr>)"
  by (simp add: Mem_updateFinancialGoal_def Let_def)

lemma filter_id_set_rows:
  "(\<And>r. g_id (f r) = g_id r) \<Longrightarrow>
   filter (\<lambda>r. g_id r = j) (map (\<lambda>r. if g_id r = i then f r else r) rows)
     = (if j = i then map f (filter (\<lambda>r. g_id r = i) rows)
        else filter (\<lambda>r. g_id r = j) rows)"
  by (induction rows) auto

lemma g_id_spread: "g_id (spread_goal r p) = g_id r"
  by (simp add: spread_goal_def)

lemma Postgres_get_after_set:
  "Postgres_getFinancialGoal
     (db\<lparr> financial_goals_table :=
            map (\<lambda>r. if g_id r = i then spread_goal r p else r) (financial_goals_table db) \<rparr>) j
     = (if j = i then map_option (\<lambda>r. spread_goal r p) (Postgres_getFinancialGoal db i)
        else Postgres_getFinancialGoal db j)"
proof -
  have first: "first_row (map f xs) = map_option f (first_row xs)" for f :: "FinancialGoal \<Rightarrow> FinancialGoal" and xs
    by (cases xs) (simp_all add: first_row_def)
  show ?thesis
    by (simp add: Postgres_getFinancialGoal_def filter_id_set_rows g_id_spread first)
qed

lemma Postgres_update_returned:
  assumes "fst (Postgres_updateFinancialGoal db i p) = Inr r"
  shows "r = map_option (\<lambda>r. spread_goal r p) (Postgres_getFinancialGoal db i)
       \<and> snd (Postgres_updateFinancialGoal db i p) =
           db\<lparr> financial_goals_table :=
                  map (\<lambda>r. if g_id r = i then spread_goal r p else r) (financial_goals_table db) \<rparr>"
proof -
  have first: "first_row (map f xs) = map_option f (first_row xs)" for f :: "FinancialGoal \<Rightarrow> FinancialGoal" and xs
    by (cases xs) (simp_all add: first_row_def)
  show ?thesis
    using assms
    by (auto simp: Postgres_updateFinancialGoal_def Let_def Postgres_getFinancialGoal_def first
        split: if_splits)
qed

lemma Postgres_update_returns:
  assumes "\<not> no_values p" and "\<forall>u. pg_userId p = Some u \<longrightarrow> references_user db u"
  shows "\<exists>r. fst (Postgres_updateFinancialGoal db i p) = Inr r"
proof -
  have "\<not> (g_userId (spread_goal r p) \<noteq> g_userId r
            \<and> \<not> references_user db (g_userId (spread_goal r p)))" for r
    using assms(2) by (cases "pg_userId p") (simp_all add: spread_goal_def spread_def)
  then have "\<not> list_ex (\<lambda>r. g_userId (spread_goal r p) \<noteq> g_userId r
                \<and> \<not> references_user db (g_userId (spread_goal r p)))
              (filter (\<lambda>r. g_id r = i) (financial_goals_table db))"
    by (simp add: list_ex_iff)
  then show ?thesis
    using assms(1) by (simp add: Postgres_updateFinancialGoal_def Let_def)
qed

lemma Postgres_update_failed:
  "fst (Postgres_updateFinancialGoal db i p) = Inl e \<Longrightarrow>
   snd (Postgres_updateFinancialGoal db i p) = db"
  by (auto simp: Postgres_updateFinancialGoal_def Let_def split: if_splits)

text \<open>
  C7. For an existing goal, \<open>updateFinancialGoal(id, partialData)\<close> returns and stores
  under that id the partial merge of the stored goal with the data: the fields present in
  the data are overwritten, every other field has its prior value, and the other goals
  are as they were; with only a title in the data the result is the stored goal with the
  new title. In \<open>MemStorage\<close> this is for every partial data. In \<open>PostgresStorage\<close>
  the update returns when the data has a key and a supplied owner is a user (with only a
  title, always), and an update that fails leaves the database as it was.
\<close>

theorem partial_merge_law:
  "(Mem_getFinancialGoal s i = Some g \<longrightarrow>
      (\<exists>g'. fst (Mem_updateFinancialGoal s i p) = Some g'
         \<and> partial_merge g p g'
         \<and> Mem_getFinancialGoal (snd (Mem_updateFinancialGoal s i p)) i = Some g'
         \<and> (\<forall>j. j \<noteq> i \<longrightarrow>
               Mem_getFinancialGoal (snd (Mem_updateFinancialGoal s i p)) j
                 = Mem_getFinancialGoal s j))
      \<and> fst (Mem_updateFinancialGoal s i (only_title x)) = Some (g\<lparr> g_title := x \<rparr>))
   \<and> (Postgres_getFinancialGoal db i = Some g \<and> \<not> no_values p
       \<and> (\<forall>u. pg_userId p = Some u \<longrightarrow> references_user db u) \<longrightarrow>
      (\<exists>g'. fst (Postgres_updateFinancialGoal db i p) = Inr (Some g')
         \<and> partial_merge g p g'
         \<and> Postgres_getFinancialGoal (snd (Postgres_updateFinancialGoal db i p)) i = Some g'
         \<and> (\<forall>j. j \<noteq> i \<longrightarrow>
               Postgres_getFinancialGoal (snd (Postgres_updateFinancialGoal db i p)) j
                 = Postgres_getFinancialGoal db j)))
   \<and> (Postgres_getFinancialGoal db i = Some g \<longrightarrow>
        fst (Postgres_updateFinancialGoal db i (only_title x)) = Inr (Some (g\<lparr> g_title := x \<rparr>)))
   \<and> (\<forall>e. fst (Postgres_updateFinancialGoal db i p) = Inl e \<longrightarrow>
          snd (Postgres_updateFinancialGoal db i p) = db)"
proof (intro conjI impI allI)
  assume g: "Mem_getFinancialGoal s i = Some g"
  show "\<exists>g'. fst (Mem_updateFinancialGoal s i p) = Some g'
         \<and> partial_merge g p g'
         \<and> Mem_getFinancialGoal (snd (Mem_updateFinancialGoal s i p)) i = Some g'
         \<and> (\<forall>j. j \<noteq> i \<longrightarrow>
               Mem_getFinancialGoal (snd (Mem_updateFinancialGoal s i p)) j
                 = Mem_getFinancialGoal s j)"
    by (simp add: Mem_update_existing[OF g] partial_merge_spread Mem_getFinancialGoal_def
        Map_get_set)
  show "fst (Mem_updateFinancialGoal s i (only_title x)) = Some (g\<lparr> g_title := x \<rparr>)"
    by (simp add: Mem_update_existing[OF g] spread_only_title)
next
  assume a: "Postgres_getFinancialGoal db i = Some g \<and> \<not> no_values p
       \<and> (\<forall>u. pg_userId p = Some u \<longrightarrow> references_user db u)"
  then obtain r where r: "fst (Postgres_updateFinancialGoal db i p) = Inr r"
    using Postgres_update_returns[of p db i] by blast
  show "\<exists>g'. fst (Postgres_updateFinancialGoal db i p) = Inr (Some g')
         \<and> partial_merge g p g'
         \<and> Postgres_getFinancialGoal (snd (Postgres_updateFinancialGoal db i p)) i = Some g'
         \<and> (\<forall>j. j \<noteq> i \<longrightarrow>
               Postgres_getFinancialGoal (snd (Postgres_updateFinancialGoal db i p)) j
                 = Postgres_getFinancialGoal db j)"
    using Postgres_update_returned[OF r] r a
    by (simp add: Postgres_get_after_set partial_merge_spread)
next
  assume g: "Postgres_getFinancialGoal db i = Some g"
  have "\<not> no_values (only_title x)"
    by (simp add: no_values_def only_title_def nothing_def)
  moreover have "\<forall>u. pg_userId (only_title x) = Some u \<longrightarrow> references_user db u"
    by (simp add: only_title_def nothing_def)
  ultimately obtain r where r: "fst (Postgres_updateFinancialGoal db i (only_title x)) = Inr r"
    using Postgres_update_returns[of "only_title x" db i] by blast
  show "fst (Postgres_updateFinancialGoal db i (only_title x)) = Inr (Some (g\<lparr> g_title := x \<rparr>))"
    using Postgres_update_returned[OF r] r g by (simp add: spread_only_title)
next
  fix e assume "fst (Postgres_updateFinancialGoal db i p) = Inl e"
  then show "snd (Postgres_updateFinancialGoal db i p) = db"
    by (rule Postgres_update_failed)
qed


lemma Mem_session_goal:
  "Mem_getFinancialGoal Mem_session 1 = Some (saved 1 ''Emergency Fund'' (Some 4000))"
  by code_simp

lemma Postgres_session_goal:
  "Postgres_getFinancialGoal Postgres_session 1 = Some (saved 1 ''Emergency Fund'' (Some 4000))"
  by code_simp

theorem partial_merge_law_witness:
  "Mem_getFinancialGoal Mem_session 1 = Some (saved 1 ''Emergency Fund'' (Some 4000))
   \<and> (\<exists>g'. fst (Mem_updateFinancialGoal Mem_session 1 (nothing\<lparr> pg_currentAmount := Some 500 \<rparr>))
              = Some g'
         \<and> g' = (saved 1 ''Emergency Fund'' (Some 4000))\<lparr> g_currentAmount := 500 \<rparr>
         \<and> partial_merge (saved 1 ''Emergency Fund'' (Some 4000))
              (nothing\<lparr> pg_currentAmount := Some 500 \<rparr>) g')
   \<and> Postgres_getFinancialGoal Postgres_session 1 = Some (saved 1 ''Emergency Fund'' (Some 4000))
   \<and> \<not> no_values (nothing\<lparr> pg_currentAmount := Some 500 \<rparr>)
   \<and> pg_userId (nothing\<lparr> pg_currentAmount := Some 500 \<rparr>) = None
   \<and> (\<exists>g'. fst (Postgres_updateFinancialGoal Postgres_session 1
                   (nothing\<lparr> pg_currentAmount := Some 500 \<rparr>)) = Inr (Some g')
         \<and> g' = (saved 1 ''Emergency Fund'' (Some 4000))\<lparr> g_currentAmount := 500 \<rparr>
         \<and> partial_merge (saved 1 ''Emergency Fund'' (Some 4000))
              (nothing\<lparr> pg_currentAmount := Some 500 \<rparr>) g')
   \<and> fst (Postgres_updateFinancialGoal Postgres_session 1 nothing) = Inl NoValuesToSet
   \<and> snd (Postgres_updateFinancialGoal Postgres_session 1 nothing) = Postgres_session"
proof -
  let ?g = "saved 1 ''Emergency Fund'' (Some 4000)"
  let ?p = "nothing\<lparr> pg_currentAmount := Some 500 \<rparr>"
  note law = partial_merge_law [of Mem_session 1 ?g ?p "''x''" Postgres_session]
  have some: "\<not> no_values ?p"
    and owner: "\<forall>u. pg_userId ?p = Some u \<longrightarrow> references_user Postgres_session u"
    and absent: "pg_userId ?p = None"
    by (simp_all add: no_values_def nothing_def)
  from law Mem_session_goal obtain g' where mem:
    "fst (Mem_updateFinancialGoal Mem_session 1 ?p) = Some g'" "partial_merge ?g ?p g'"
    by blast
  from law Postgres_session_goal some owner obtain h' where pg:
    "fst (Postgres_updateFinancialGoal Postgres_session 1 ?p) = Inr (Some h')"
    "partial_merge ?g ?p h'"
    by blast
  have "fst (Mem_updateFinancialGoal Mem_session 1 ?p) = Some (?g\<lparr> g_currentAmount := 500 \<rparr>)"
    by code_simp
  with mem(1) have g': "g' = ?g\<lparr> g_currentAmount := 500 \<rparr>"
    by simp
  have "fst (Postgres_updateFinancialGoal Postgres_session 1 ?p)
          = Inr (Some (?g\<lparr> g_currentAmount := 500 \<rparr>))"
    by code_simp
  with pg(1) have h': "h' = ?g\<lparr> g_currentAmount := 500 \<rparr>"
    by simp
  have failed: "fst (Postgres_updateFinancialGoal Postgres_session 1 nothing) = Inl NoValuesToSet"
    by code_simp
  with partial_merge_law [of Mem_session 1 ?g nothing "''x''" Postgres_session]
  have same: "snd (Postgres_updateFinancialGoal Postgres_session 1 nothing) = Postgres_session"
    by blast
  show ?thesis
    using Mem_session_goal Postgres_session_goal some absent mem pg g' h' failed same
    by blast
qed

text \<open>
  C10. An update of an existing goal returns and stores under the same id a goal with the
  id of the goal it replaces; a \<open>userId\<close> in the partial data becomes the owner of that
  goal. In the store of the two users, the goal of user 1 is owned by user 2 after the
  update with \<open>{userId: 2}\<close>: the owner is not preserved. In \<open>PostgresStorage\<close> the
  new owner has to be a user, or the foreign key fails the update.
\<close>

theorem update_keeps_id_not_owner:
  "(Mem_getFinancialGoal s i = Some g \<longrightarrow>
      (\<exists>g'. fst (Mem_updateFinancialGoal s i p) = Some g'
         \<and> Mem_getFinancialGoal (snd (Mem_updateFinancialGoal s i p)) i = Some g'
         \<and> g_id g' = g_id g
         \<and> (\<forall>u. pg_userId p = Some u \<longrightarrow> g_userId g' = u)))
   \<and> (Postgres_getFinancialGoal db i = Some g \<longrightarrow>
        (\<forall>r. fst (Postgres_updateFinancialGoal db i p) = Inr r \<longrightarrow>
           (\<exists>g'. r = Some g'
              \<and> Postgres_getFinancialGoal (snd (Postgres_updateFinancialGoal db i p)) i = Some g'
              \<and> g_id g' = g_id g
              \<and> (\<forall>u. pg_userId p = Some u \<longrightarrow> g_userId g' = u))))
   \<and> (Postgres_getFinancialGoal db i = Some g \<and> references_user db u \<longrightarrow>
        (\<exists>g'. fst (Postgres_updateFinancialGoal db i (only_userId u)) = Inr (Some g')
           \<and> g_userId g' = u))
   \<and> g_userId (saved 1 ''Emergency Fund'' (Some 4000)) = 1
   \<and> Mem_getFinancialGoal Mem_two_users 1 = Some (saved 1 ''Emergency Fund'' (Some 4000))
   \<and> fst (Mem_updateFinancialGoal Mem_two_users 1 (only_userId 2))
       = Some ((saved 1 ''Emergency Fund'' (Some 4000))\<lparr> g_userId := 2 \<rparr>)
   \<and> Postgres_getFinancialGoal Postgres_two_users 1 = Some (saved 1 ''Emergency Fund'' (Some 4000))
   \<and> fst (Postgres_updateFinancialGoal Postgres_two_users 1 (only_userId 2))
       = Inr (Some ((saved 1 ''Emergency Fund'' (Some 4000))\<lparr> g_userId := 2 \<rparr>))"
proof (intro conjI impI allI)
  assume g: "Mem_getFinancialGoal s i = Some g"
  show "\<exists>g'. fst (Mem_updateFinancialGoal s i p) = Some g'
         \<and> Mem_getFinancialGoal (snd (Mem_updateFinancialGoal s i p)) i = Some g'
         \<and> g_id g' = g_id g
         \<and> (\<forall>u. pg_userId p = Some u \<longrightarrow> g_userId g' = u)"
    by (simp add: Mem_update_existing[OF g] Mem_getFinancialGoal_def Map_get_set
        spread_goal_def spread_def)
next
  fix r
  assume g: "Postgres_getFinancialGoal db i = Some g"
    and r: "fst (Postgres_updateFinancialGoal db i p) = Inr r"
  show "\<exists>g'. r = Some g'
              \<and> Postgres_getFinancialGoal (snd (Postgres_updateFinancialGoal db i p)) i = Some g'
              \<and> g_id g' = g_id g
              \<and> (\<forall>u. pg_userId p = Some u \<longrightarrow> g_userId g' = u)"
    using Postgres_update_returned[OF r] g
    by (simp add: Postgres_get_after_set spread_goal_def spread_def)
next
  assume a: "Postgres_getFinancialGoal db i = Some g \<and> references_user db u"
  have "\<not> no_values (only_userId u)"
    by (simp add: no_values_def only_userId_def nothing_def)
  moreover have "\<forall>v. pg_userId (only_userId u) = Some v \<longrightarrow> references_user db v"
    using a by (simp add: only_userId_def nothing_def)
  ultimately obtain r where r: "fst (Postgres_updateFinancialGoal db i (only_userId u)) = Inr r"
    using Postgres_update_returns[of "only_userId u" db i] by blast
  show "\<exists>g'. fst (Postgres_updateFinancialGoal db i (only_userId u)) = Inr (Some g')
           \<and> g_userId g' = u"
    using Postgres_update_returned[OF r] r a
    by (simp add: spread_goal_def spread_def only_userId_def nothing_def)
qed code_simp+

theorem update_keeps_id_not_owner_witness:
  "Mem_getFinancialGoal Mem_two_users 1 = Some (saved 1 ''Emergency Fund'' (Some 4000))
   \<and> (\<exists>g'. fst (Mem_updateFinancialGoal Mem_two_users 1 (only_userId 2)) = Some g'
         \<and> Mem_getFinancialGoal (snd (Mem_updateFinancialGoal Mem_two_users 1 (only_userId 2))) 1
             = Some g'
         \<and> g_id g' = 1 \<and> g_userId g' = 2)
   \<and> Postgres_getFinancialGoal Postgres_two_users 1
       = Some (saved 1 ''Emergency Fund'' (Some 4000))
   \<and> references_user Postgres_two_users 2
   \<and> (\<exists>g'. fst (Postgres_updateFinancialGoal Postgres_two_users 1 (only_userId 2))
              = Inr (Some g')
         \<and> g_userId g' = 2)"
proof -
  let ?g = "saved 1 ''Emergency Fund'' (Some 4000)"
  note law = update_keeps_id_not_owner [of Mem_two_users 1 ?g "only_userId 2" Postgres_two_users 2]
  have owner: "references_user Postgres_two_users 2"
    by code_simp
  have p: "pg_userId (only_userId 2) = Some 2" and i: "g_id ?g = 1"
    by (simp_all add: only_userId_def nothing_def saved_def)
  from law have mem: "Mem_getFinancialGoal Mem_two_users 1 = Some ?g"
    and pg: "Postgres_getFinancialGoal Postgres_two_users 1 = Some ?g"
    by blast+
  from law mem obtain g' where g':
    "fst (Mem_updateFinancialGoal Mem_two_users 1 (only_userId 2)) = Some g'"
    "Mem_getFinancialGoal (snd (Mem_updateFinancialGoal Mem_two_users 1 (only_userId 2))) 1
             = Some g'"
    "g_id g' = g_id ?g" "\<forall>u. pg_userId (only_userId 2) = Some u \<longrightarrow> g_userId g' = u"
    by blast
  from law pg owner obtain h' where h':
    "fst (Postgres_updateFinancialGoal Postgres_two_users 1 (only_userId 2)) = Inr (Some h')"
    "g_userId h' = 2"
    by blast
  show ?thesis
    using mem pg owner g' h' p i by auto
qed

subsection \<open>A deleted goal stays deleted\<close>

lemma Mem_gone_call:
  assumes "Mem_gone i s"
  shows "Mem_gone i (snd (Mem_call s now c))"
proof (cases c)
  case (createFinancialGoal d)
  then show ?thesis
    using assms
    by (simp add: Mem_gone_def returning_def Mem_createFinancialGoal_def Let_def
        Mem_getFinancialGoal_def Map_get_set)
next
  case (updateFinancialGoal j p)
  then show ?thesis
    using assms
    by (cases "Mem_getFinancialGoal s j")
       (auto simp: Mem_gone_def returning_def Mem_updateFinancialGoal_def Let_def
          Mem_getFinancialGoal_def Map_get_set)
next
  case (deleteFinancialGoal j)
  then show ?thesis
    using assms Map_get_delete[of "financialGoals s" j i]
    by (simp add: Mem_gone_def returning_def Mem_deleteFinancialGoal_def Let_def split_beta
        Mem_getFinancialGoal_def)
next
  case (getChatMessages u l)
  then show ?thesis using assms by (simp add: settled_def split: sum.splits)
next
  case (getFinancialGoals u)
  then show ?thesis using assms by (simp add: settled_def split: sum.splits)
next
  case (createUser d)
  then show ?thesis
    using assms
    by (simp add: Mem_gone_def returning_def Mem_createUser_def Let_def Mem_getFinancialGoal_def)
next
  case (createFinancialProfile d)
  then show ?thesis
    using assms
    by (simp add: Mem_gone_def returning_def Mem_createFinancialProfile_def Let_def
        Mem_getFinancialGoal_def)
next
  case (updateFinancialProfile u d)
  then show ?thesis
    using assms
    by (simp add: Mem_gone_def returning_def Mem_updateFinancialProfile_def Let_def
        Mem_getFinancialGoal_def split: option.splits)
next
  case (createChatMessage d)
  then show ?thesis
    using assms
    by (simp add: Mem_gone_def returning_def Mem_createChatMessage_def Let_def
        Mem_getFinancialGoal_def)
qed (simp_all add: assms)

lemma Mem_gone_calls: "Mem_gone i s \<Longrightarrow> Mem_gone i (Mem_calls s cs)"
  by (induction cs arbitrary: s) (auto simp: Mem_gone_call)

lemma Mem_delete_existing:
  assumes "Mem_inv s" and "Mem_getFinancialGoal s i \<noteq> None"
  shows "fst (Mem_deleteFinancialGoal s i)" and "Mem_gone i (snd (Mem_deleteFinancialGoal s i))"
proof -
  from assms(2) have "i \<in> fst ` set (financialGoals s)"
    by (auto simp: Mem_getFinancialGoal_def dest: Map_get_keys)
  then have "i < goalIdCounter s"
    using assms(1) by (auto simp: Mem_inv_def list_all_iff)
  then show "Mem_gone i (snd (Mem_deleteFinancialGoal s i))"
    by (simp add: Mem_gone_def Mem_deleteFinancialGoal_def Let_def split_beta
        Mem_getFinancialGoal_def Map_get_delete)
  show "fst (Mem_deleteFinancialGoal s i)"
    using assms(2)
    by (simp add: Mem_deleteFinancialGoal_def Let_def split_beta Map_delete_fst
        Mem_getFinancialGoal_def)
qed

lemma Mem_delete_gone:
  "Mem_gone i s \<Longrightarrow> \<not> fst (Mem_deleteFinancialGoal s i)"
  by (simp add: Mem_gone_def Mem_deleteFinancialGoal_def Let_def split_beta Map_delete_fst
      Mem_getFinancialGoal_def)

lemma first_row_None: "first_row xs = None \<longleftrightarrow> xs = []"
  by (cases xs) (simp_all add: first_row_def)

lemma Postgres_gone_iff:
  "Postgres_gone i db \<longleftrightarrow>
     list_all (\<lambda>r. g_id r \<noteq> i) (financial_goals_table db) \<and> i < financial_goals_id_seq db"
  by (auto simp: Postgres_gone_def Postgres_getFinancialGoal_def first_row_None
      filter_empty_conv list_all_iff)

lemma Postgres_gone_call:
  assumes "Postgres_gone i db"
  shows "Postgres_gone i (snd (Postgres_call db now c))"
proof (cases c)
  case (createFinancialGoal d)
  then show ?thesis
    using assms
    by (simp add: Postgres_gone_iff settling_def Postgres_createFinancialGoal_def Let_def)
next
  case (updateFinancialGoal j p)
  then show ?thesis
    using assms
    by (auto simp: Postgres_gone_iff settling_def Postgres_updateFinancialGoal_def Let_def
        list_all_iff spread_goal_def)
next
  case (deleteFinancialGoal j)
  then show ?thesis
    using assms
    by (auto simp: Postgres_gone_iff returning_def Postgres_deleteFinancialGoal_def Let_def
        list_all_iff)
next
  case (getChatMessages u l)
  then show ?thesis using assms by (simp add: settled_def split: sum.splits)
next
  case (getFinancialGoals u)
  then show ?thesis using assms by (simp add: settled_def split: sum.splits)
next
  case (createUser d)
  then show ?thesis
    using assms by (simp add: Postgres_gone_iff settling_def Postgres_createUser_throws)
next
  case (createFinancialProfile d)
  then show ?thesis
    using assms
    by (simp add: Postgres_gone_iff settling_def Postgres_createFinancialProfile_def Let_def)
next
  case (updateFinancialProfile u d)
  then show ?thesis
    using assms
    by (simp add: Postgres_gone_iff settling_def Postgres_updateFinancialProfile_def Let_def
        split: option.splits)
next
  case (createChatMessage d)
  then show ?thesis
    using assms
    by (simp add: Postgres_gone_iff settling_def Postgres_createChatMessage_def Let_def)
qed (simp_all add: assms)

lemma Postgres_gone_calls: "Postgres_gone i db \<Longrightarrow> Postgres_gone i (Postgres_calls db cs)"
  by (induction cs arbitrary: db) (auto simp: Postgres_gone_call)

lemma Postgres_delete_existing:
  assumes "Postgres_inv db" and "Postgres_getFinancialGoal db i \<noteq> None"
  shows "fst (Postgres_deleteFinancialGoal db i)"
    and "Postgres_gone i (snd (Postgres_deleteFinancialGoal db i))"
proof -
  from assms(2) have rows: "filter (\<lambda>r. g_id r = i) (financial_goals_table db) \<noteq> []"
    by (simp add: Postgres_getFinancialGoal_def first_row_None)
  then obtain r where "r \<in> set (financial_goals_table db)" "g_id r = i"
    by (auto simp: filter_empty_conv)
  then have "i < financial_goals_id_seq db"
    using assms(1) by (auto simp: Postgres_inv_def list_all_iff)
  then show "Postgres_gone i (snd (Postgres_deleteFinancialGoal db i))"
    by (simp add: Postgres_gone_iff Postgres_deleteFinancialGoal_def Let_def list_all_iff)
  show "fst (Postgres_deleteFinancialGoal db i)"
    using rows by (simp add: Postgres_deleteFinancialGoal_def Let_def)
qed

lemma Postgres_delete_gone:
  "Postgres_gone i db \<Longrightarrow> \<not> fst (Postgres_deleteFinancialGoal db i)"
  by (simp add: Postgres_gone_def Postgres_deleteFinancialGoal_def Let_def
      Postgres_getFinancialGoal_def first_row_None)

text \<open>
  C6. For a goal id that is in the store, \<open>deleteFinancialGoal(id)\<close> returns true, and
  in the store it leaves, after any list of further calls, \<open>deleteFinancialGoal(id)\<close>
  returns false and \<open>getFinancialGoal(id)\<close> returns the not-found result: no later
  \<open>create\<close> assigns the id again, the ids in use being below the counter (the
  invariant of the stores).
\<close>

theorem deletion_law:
  "(Mem_inv s \<and> Mem_getFinancialGoal s i \<noteq> None \<longrightarrow>
      fst (Mem_deleteFinancialGoal s i)
      \<and> (\<forall>cs. \<not> fst (Mem_deleteFinancialGoal
                       (Mem_calls (snd (Mem_deleteFinancialGoal s i)) cs) i)
             \<and> Mem_getFinancialGoal (Mem_calls (snd (Mem_deleteFinancialGoal s i)) cs) i = None))
   \<and> (Postgres_inv db \<and> Postgres_getFinancialGoal db i \<noteq> None \<longrightarrow>
      fst (Postgres_deleteFinancialGoal db i)
      \<and> (\<forall>cs. \<not> fst (Postgres_deleteFinancialGoal
                       (Postgres_calls (snd (Postgres_deleteFinancialGoal db i)) cs) i)
             \<and> Postgres_getFinancialGoal
                 (Postgres_calls (snd (Postgres_deleteFinancialGoal db i)) cs) i = None))"
proof (intro conjI impI allI)
  assume a: "Mem_inv s \<and> Mem_getFinancialGoal s i \<noteq> None"
  then show "fst (Mem_deleteFinancialGoal s i)"
    by (simp add: Mem_delete_existing(1))
  fix cs
  have "Mem_gone i (Mem_calls (snd (Mem_deleteFinancialGoal s i)) cs)"
    using a by (simp add: Mem_gone_calls Mem_delete_existing(2))
  then show "\<not> fst (Mem_deleteFinancialGoal (Mem_calls (snd (Mem_deleteFinancialGoal s i)) cs) i)"
    and "Mem_getFinancialGoal (Mem_calls (snd (Mem_deleteFinancialGoal s i)) cs) i = None"
    by (simp_all add: Mem_delete_gone) (simp add: Mem_gone_def)
next
  assume a: "Postgres_inv db \<and> Postgres_getFinancialGoal db i \<noteq> None"
  then show "fst (Postgres_deleteFinancialGoal db i)"
    by (simp add: Postgres_delete_existing(1))
  fix cs
  have "Postgres_gone i (Postgres_calls (snd (Postgres_deleteFinancialGoal db i)) cs)"
    using a by (simp add: Postgres_gone_calls Postgres_delete_existing(2))
  then show "\<not> fst (Postgres_deleteFinancialGoal
                       (Postgres_calls (snd (Postgres_deleteFinancialGoal db i)) cs) i)"
    and "Postgres_getFinancialGoal
                 (Postgres_calls (snd (Postgres_deleteFinancialGoal db i)) cs) i = None"
    by (simp_all add: Postgres_delete_gone) (simp add: Postgres_gone_def)
qed

theorem deletion_law_witness:
  "Mem_inv Mem_session \<and> Mem_getFinancialGoal Mem_session 1 \<noteq> None
   \<and> fst (Mem_deleteFinancialGoal Mem_session 1)
   \<and> \<not> fst (Mem_deleteFinancialGoal
              (Mem_calls (snd (Mem_deleteFinancialGoal Mem_session 1)) afterwards) 1)
   \<and> Mem_getFinancialGoal (Mem_calls (snd (Mem_deleteFinancialGoal Mem_session 1)) afterwards) 1
       = None
   \<and> Postgres_inv Postgres_session \<and> Postgres_getFinancialGoal Postgres_session 1 \<noteq> None
   \<and> fst (Postgres_deleteFinancialGoal Postgres_session 1)
   \<and> \<not> fst (Postgres_deleteFinancialGoal
              (Postgres_calls (snd (Postgres_deleteFinancialGoal Postgres_session 1)) afterwards) 1)
   \<and> Postgres_getFinancialGoal
       (Postgres_calls (snd (Postgres_deleteFinancialGoal Postgres_session 1)) afterwards) 1
       = None"
proof -
  have mem: "Mem_getFinancialGoal Mem_session 1 \<noteq> None"
    by (simp add: Mem_session_goal)
  have pg: "Postgres_getFinancialGoal Postgres_session 1 \<noteq> None"
    by (simp add: Postgres_session_goal)
  show ?thesis
    using deletion_law [of Mem_session 1 Postgres_session] mem pg Mem_inv_session
      Postgres_inv_session
    by blast
qed

subsection \<open>MemStorage returns from every call\<close>

lemma Mem_getChatMessages_returns:
  assumes "Mem_inv s"
  shows "\<exists>r. Mem_getChatMessages s u l = Inr r"
proof -
  have "\<forall>m\<in>set (filter (\<lambda>m. m_userId m = u) (Map_values (chatMessages s))). m_timestamp m \<noteq> None"
    using assms by (simp add: Mem_inv_def list_all_iff)
  then show ?thesis
    by (simp add: Mem_getChatMessages_def Mem_sort_messages split: option.splits)
qed

lemma Mem_getFinancialGoals_returns:
  assumes "Mem_inv s"
  shows "\<exists>r. Mem_getFinancialGoals s u = Inr r"
proof -
  have "\<forall>g\<in>set (filter (\<lambda>g. g_userId g = u) (Map_values (financialGoals s))). g_createdAt g \<noteq> None"
    using assms by (simp add: Mem_inv_def list_all_iff)
  then show ?thesis
    by (simp add: Mem_getFinancialGoals_def Mem_sort_goals)
qed

lemma Mem_call_returns:
  assumes "Mem_inv s"
  shows "\<exists>r. fst (Mem_call s now c) = Inr r"
proof (cases c)
  case (getChatMessages u l)
  then show ?thesis
    using Mem_getChatMessages_returns[OF assms, of u l] by (auto simp: settled_def)
next
  case (getFinancialGoals u)
  then show ?thesis
    using Mem_getFinancialGoals_returns[OF assms, of u] by (auto simp: settled_def)
qed (simp_all add: returning_def)

lemma Mem_users_call:
  assumes "list_all Q (Map_values (users s))"
    and "\<And>d. c = createUser d \<Longrightarrow>
           Q \<lparr> u_id = userIdCounter s, u_username = iu_username d, u_email = iu_email d,
               u_password = iu_password d, u_createdAt = Some now \<rparr>"
  shows "list_all Q (Map_values (users (snd (Mem_call s now c))))"
proof (cases c)
  case (createUser d)
  then show ?thesis
    using assms by (simp add: returning_def Mem_createUser_def Let_def all_values_Map_set)
next
  case (getChatMessages u l)
  then show ?thesis using assms(1) by (simp add: settled_def split: sum.splits)
next
  case (getFinancialGoals u)
  then show ?thesis using assms(1) by (simp add: settled_def split: sum.splits)
next
  case (createFinancialProfile d)
  then show ?thesis
    using assms(1) by (simp add: returning_def Mem_createFinancialProfile_def Let_def)
next
  case (updateFinancialProfile u d)
  then show ?thesis
    using assms(1)
    by (simp add: returning_def Mem_updateFinancialProfile_def Let_def split: option.splits)
next
  case (createChatMessage d)
  then show ?thesis
    using assms(1) by (simp add: returning_def Mem_createChatMessage_def Let_def)
next
  case (createFinancialGoal d)
  then show ?thesis
    using assms(1) by (simp add: returning_def Mem_createFinancialGoal_def Let_def)
next
  case (updateFinancialGoal j p)
  then show ?thesis
    using assms(1)
    by (simp add: returning_def Mem_updateFinancialGoal_def Let_def split: option.splits)
next
  case (deleteFinancialGoal j)
  then show ?thesis
    using assms(1) by (simp add: returning_def Mem_deleteFinancialGoal_def Let_def split_beta)
qed (simp_all add: assms(1))

lemma Mem_users_calls:
  assumes "\<And>i d t. P d \<or> Q \<lparr> u_id = i, u_username = iu_username d, u_email = iu_email d,
               u_password = iu_password d, u_createdAt = Some t \<rparr>"
  shows "list_all Q (Map_values (users s)) \<Longrightarrow> never_created P cs \<Longrightarrow>
         list_all Q (Map_values (users (Mem_calls s cs)))"
proof (induction cs arbitrary: s)
  case Nil
  then show ?case by simp
next
  case (Cons tc cs)
  obtain now c where tc: "tc = (now, c)" by (cases tc)
  have "list_all Q (Map_values (users (snd (Mem_call s now c))))"
  proof (rule Mem_users_call[OF Cons.prems(1)])
    fix d assume "c = createUser d"
    then have "\<not> P d" using Cons.prems(2) tc by (simp add: never_created_def)
    then show "Q \<lparr> u_id = userIdCounter s, u_username = iu_username d, u_email = iu_email d,
               u_password = iu_password d, u_createdAt = Some now \<rparr>"
      using assms by blast
  qed
  moreover have "never_created P cs"
    using Cons.prems(2) by (simp add: never_created_def)
  ultimately show ?case
    using Cons.IH tc by simp
qed

lemma Mem_username_never_created:
  assumes "never_created (\<lambda>d. iu_username d = n) cs"
  shows "Mem_getUserByUsername (Mem_calls MemStorage_new cs) n = None"
proof -
  have "list_all (\<lambda>u. u_username u \<noteq> n) (Map_values (users (Mem_calls MemStorage_new cs)))"
    by (rule Mem_users_calls[where P = "\<lambda>d. iu_username d = n", OF _ _ assms])
       (simp_all add: MemStorage_new_def Map_values_def)
  then show ?thesis
    by (simp add: Mem_getUserByUsername_def find_None_iff list_all_iff)
qed

lemma Mem_email_never_created:
  assumes "never_created (\<lambda>d. iu_email d = e) cs"
  shows "Mem_getUserByEmail (Mem_calls MemStorage_new cs) e = None"
proof -
  have "list_all (\<lambda>u. u_email u \<noteq> e) (Map_values (users (Mem_calls MemStorage_new cs)))"
    by (rule Mem_users_calls[where P = "\<lambda>d. iu_email d = e", OF _ _ assms])
       (simp_all add: MemStorage_new_def Map_values_def)
  then show ?thesis
    by (simp add: Mem_getUserByEmail_def find_None_iff list_all_iff)
qed

lemma Postgres_users_call:
  assumes "list_all Q (users_table db)"
    and "\<And>d. c = createUser d \<Longrightarrow>
           Q \<lparr> id_col = users_id_seq db, username_col = iu_username d, email_col = iu_email d,
               password_hash_col = iu_password d, created_at_col = Some now \<rparr>"
  shows "list_all Q (users_table (snd (Postgres_call db now c)))"
proof (cases c)
  case (createUser d)
  then show ?thesis
    using assms(1) by (simp add: settling_def Postgres_createUser_throws)
next
  case (getChatMessages u l)
  then show ?thesis using assms(1) by (simp add: settled_def split: sum.splits)
next
  case (getFinancialGoals u)
  then show ?thesis using assms(1) by (simp add: settled_def split: sum.splits)
next
  case (createFinancialProfile d)
  then show ?thesis
    using assms(1) by (simp add: settling_def Postgres_createFinancialProfile_def Let_def)
next
  case (updateFinancialProfile u d)
  then show ?thesis
    using assms(1)
    by (simp add: settling_def Postgres_updateFinancialProfile_def Let_def split: option.splits)
next
  case (createChatMessage d)
  then show ?thesis
    using assms(1) by (simp add: settling_def Postgres_createChatMessage_def Let_def)
next
  case (createFinancialGoal d)
  then show ?thesis
    using assms(1) by (simp add: settling_def Postgres_createFinancialGoal_def Let_def)
next
  case (updateFinancialGoal j p)
  then show ?thesis
    using assms(1) by (simp add: settling_def Postgres_updateFinancialGoal_def Let_def)
next
  case (deleteFinancialGoal j)
  then show ?thesis
    using assms(1) by (simp add: returning_def Postgres_deleteFinancialGoal_def Let_def)
qed (simp_all add: assms(1))

lemma Postgres_users_calls:
  assumes "\<And>i d t. P d \<or> Q \<lparr> id_col = i, username_col = iu_username d, email_col = iu_email d,
               password_hash_col = iu_password d, created_at_col = Some t \<rparr>"
  shows "list_all Q (users_table db) \<Longrightarrow> never_created P cs \<Longrightarrow>
         list_all Q (users_table (Postgres_calls db cs))"
proof (induction cs arbitrary: db)
  case Nil
  then show ?case by simp
next
  case (Cons tc cs)
  obtain now c where tc: "tc = (now, c)" by (cases tc)
  have "list_all Q (users_table (snd (Postgres_call db now c)))"
  proof (rule Postgres_users_call[OF Cons.prems(1)])
    fix d assume "c = createUser d"
    then have "\<not> P d" using Cons.prems(2) tc by (simp add: never_created_def)
    then show "Q \<lparr> id_col = users_id_seq db, username_col = iu_username d,
               email_col = iu_email d, password_hash_col = iu_password d,
               created_at_col = Some now \<rparr>"
      using assms by blast
  qed
  moreover have "never_created P cs"
    using Cons.prems(2) by (simp add: never_created_def)
  ultimately show ?case
    using Cons.IH tc by simp
qed

lemma Postgres_username_never_created:
  assumes "never_created (\<lambda>d. iu_username d = n) cs"
  shows "Postgres_getUserByUsername (Postgres_calls Database_new cs) n = None"
proof -
  have "list_all (\<lambda>r. username_col r \<noteq> n) (users_table (Postgres_calls Database_new cs))"
    by (rule Postgres_users_calls[where P = "\<lambda>d. iu_username d = n", OF _ _ assms])
       (simp_all add: Database_new_def)
  then show ?thesis
    by (simp add: username_taken list_ex_iff list_all_iff)
qed

lemma Postgres_email_never_created:
  assumes "never_created (\<lambda>d. iu_email d = e) cs"
  shows "Postgres_getUserByEmail (Postgres_calls Database_new cs) e = None"
proof -
  have "list_all (\<lambda>r. email_col r \<noteq> e) (users_table (Postgres_calls Database_new cs))"
    by (rule Postgres_users_calls[where P = "\<lambda>d. iu_email d = e", OF _ _ assms])
       (simp_all add: Database_new_def)
  then show ?thesis
    by (simp add: email_taken list_ex_iff list_all_iff)
qed

text \<open>
  C8. Every call on a \<open>MemStorage\<close> built from \<open>new MemStorage()\<close> by any list of
  calls returns, throwing nothing. A username or an email that no \<open>createUser\<close> of the
  list supplied is looked up as not found, in \<open>PostgresStorage\<close> after the same calls
  as well. In every \<open>MemStorage\<close>, a lookup of an absent id is
  not found, the deletion of an absent goal id is false, an update of an absent goal or
  profile is not found, each leaving the store as it was, and the listing of a user
  without messages or goals is the empty list.
\<close>

theorem MemStorage_never_raises:
  "(\<exists>r. fst (Mem_call (Mem_calls MemStorage_new cs) now c) = Inr r)
   \<and> (never_created (\<lambda>d. iu_username d = n) cs \<longrightarrow>
        fst (Mem_call (Mem_calls MemStorage_new cs) now (getUserByUsername n)) = Inr (a_User None))
   \<and> (never_created (\<lambda>d. iu_email d = e) cs \<longrightarrow>
        fst (Mem_call (Mem_calls MemStorage_new cs) now (getUserByEmail e)) = Inr (a_User None))
   \<and> (never_created (\<lambda>d. iu_username d = n) cs \<longrightarrow>
        Postgres_getUserByUsername (Postgres_calls Database_new cs) n = None)
   \<and> (never_created (\<lambda>d. iu_email d = e) cs \<longrightarrow>
        Postgres_getUserByEmail (Postgres_calls Database_new cs) e = None)
   \<and> (Mem_getUser s i = None \<longrightarrow> Mem_call s now (getUser i) = (Inr (a_User None), s))
   \<and> (Mem_getFinancialGoal s i = None \<longrightarrow>
        Mem_call s now (deleteFinancialGoal i) = (Inr (a_boolean False), s)
        \<and> Mem_call s now (updateFinancialGoal i p) = (Inr (a_FinancialGoal None), s))
   \<and> (Mem_getFinancialProfile s u = None \<longrightarrow>
        Mem_call s now (updateFinancialProfile u q) = (Inr (a_FinancialProfile None), s))
   \<and> (list_all (\<lambda>m. m_userId m \<noteq> u) (Map_values (chatMessages s)) \<longrightarrow>
        Mem_call s now (getChatMessages u l) = (Inr (some_ChatMessages []), s))
   \<and> (list_all (\<lambda>g. g_userId g \<noteq> u) (Map_values (financialGoals s)) \<longrightarrow>
        Mem_call s now (getFinancialGoals u) = (Inr (some_FinancialGoals []), s))"
proof (intro conjI impI)
  show "\<exists>r. fst (Mem_call (Mem_calls MemStorage_new cs) now c) = Inr r"
    by (rule Mem_call_returns) (rule Mem_inv_calls, rule Mem_inv_new)
next
  assume "never_created (\<lambda>d. iu_username d = n) cs"
  then show "fst (Mem_call (Mem_calls MemStorage_new cs) now (getUserByUsername n))
               = Inr (a_User None)"
    by (simp add: Mem_username_never_created)
next
  assume "never_created (\<lambda>d. iu_email d = e) cs"
  then show "fst (Mem_call (Mem_calls MemStorage_new cs) now (getUserByEmail e))
               = Inr (a_User None)"
    by (simp add: Mem_email_never_created)
next
  assume "never_created (\<lambda>d. iu_username d = n) cs"
  then show "Postgres_getUserByUsername (Postgres_calls Database_new cs) n = None"
    by (rule Postgres_username_never_created)
next
  assume "never_created (\<lambda>d. iu_email d = e) cs"
  then show "Postgres_getUserByEmail (Postgres_calls Database_new cs) e = None"
    by (rule Postgres_email_never_created)
next
  assume "Mem_getUser s i = None"
  then show "Mem_call s now (getUser i) = (Inr (a_User None), s)"
    by simp
next
  assume none: "Mem_getFinancialGoal s i = None"
  then show "Mem_call s now (deleteFinancialGoal i) = (Inr (a_boolean False), s)"
    by (simp add: returning_def Mem_deleteFinancialGoal_def Mem_getFinancialGoal_def
        Map_delete_absent)
  from none show "Mem_call s now (updateFinancialGoal i p) = (Inr (a_FinancialGoal None), s)"
    by (simp add: returning_def Mem_updateFinancialGoal_def)
next
  assume "Mem_getFinancialProfile s u = None"
  then show "Mem_call s now (updateFinancialProfile u q) = (Inr (a_FinancialProfile None), s)"
    by (simp add: returning_def Mem_updateFinancialProfile_def)
next
  assume "list_all (\<lambda>m. m_userId m \<noteq> u) (Map_values (chatMessages s))"
  then have "filter (\<lambda>m. m_userId m = u) (Map_values (chatMessages s)) = []"
    by (simp add: filter_empty_conv list_all_iff)
  then show "Mem_call s now (getChatMessages u l) = (Inr (some_ChatMessages []), s)"
    by (simp add: settled_def Mem_getChatMessages_def Array_slice_def split: option.splits)
next
  assume "list_all (\<lambda>g. g_userId g \<noteq> u) (Map_values (financialGoals s))"
  then have "filter (\<lambda>g. g_userId g = u) (Map_values (financialGoals s)) = []"
    by (simp add: filter_empty_conv list_all_iff)
  then show "Mem_call s now (getFinancialGoals u) = (Inr (some_FinancialGoals []), s)"
    by (simp add: settled_def Mem_getFinancialGoals_def)
qed


theorem MemStorage_never_raises_witness:
  "(\<exists>r. fst (Mem_call (Mem_calls MemStorage_new session) 9000 (getChatMessages 1 (Some (- 1))))
          = Inr r)
   \<and> never_created (\<lambda>d. iu_username d = ''carol'') session
   \<and> fst (Mem_call (Mem_calls MemStorage_new session) 9000 (getUserByUsername ''carol''))
       = Inr (a_User None)
   \<and> never_created (\<lambda>d. iu_email d = ''c@x.com'') session
   \<and> fst (Mem_call (Mem_calls MemStorage_new session) 9000 (getUserByEmail ''c@x.com''))
       = Inr (a_User None)
   \<and> Postgres_getUserByUsername (Postgres_calls Database_new session) ''carol'' = None
   \<and> Postgres_getUserByEmail (Postgres_calls Database_new session) ''c@x.com'' = None
   \<and> Mem_getFinancialGoal Mem_session 7 = None
   \<and> Mem_call Mem_session 9000 (deleteFinancialGoal 7) = (Inr (a_boolean False), Mem_session)
   \<and> Mem_getFinancialProfile Mem_session 1 = None
   \<and> Mem_call Mem_session 9000 (updateFinancialProfile 1 no_change)
       = (Inr (a_FinancialProfile None), Mem_session)
   \<and> list_all (\<lambda>m. m_userId m \<noteq> 2) (Map_values (chatMessages Mem_session))
   \<and> Mem_call Mem_session 9000 (getChatMessages 2 (Some 5))
       = (Inr (some_ChatMessages []), Mem_session)"
proof -
  note law = MemStorage_never_raises [of session 9000 _ "''carol''" "''c@x.com''" Mem_session 7 _ _ no_change]
  have name: "never_created (\<lambda>d. iu_username d = ''carol'') session"
    and email: "never_created (\<lambda>d. iu_email d = ''c@x.com'') session"
    and goal: "Mem_getFinancialGoal Mem_session 7 = None"
    and profile: "Mem_getFinancialProfile Mem_session 1 = None"
    and messages: "list_all (\<lambda>m. m_userId m \<noteq> 2) (Map_values (chatMessages Mem_session))"
    by code_simp+
  show ?thesis
    using law [of "getChatMessages 1 (Some (- 1))" nothing 1 None]
      law [of "getUser 1" nothing 2 "Some 5"] name email goal profile messages
    by blast
qed

end
